theory Spec2Isabelle
  imports Complex_Main "HOL-Library.Char_ord" "HOL-Library.List_Lexorder"
begin

section \<open>Constants and data of \<^verbatim>\<open>distributed_lxc.h\<close>\<close>

text \<open>
  The coordinator of the distributed LXC orchestrator, embedded shallowly. C strings are
  \<open>string\<close>s (the characters before the terminating NUL), \<open>int\<close> and \<open>time_t\<close> are
  \<open>int\<close>, and a call of \<open>time(NULL)\<close> is the argument \<open>now\<close> of the operation that makes
  it. A \<open>double\<close> is a value of the type \<open>double\<close> below, and the arithmetic on doubles
  is the platform's (section \<open>What the code takes from its platform\<close>).
  An array with its element count (\<open>nodes\<close>/\<open>node_count\<close>,
  \<open>deployed_containers\<close>/\<open>deployed_container_count\<close>, \<open>node->containers\<close>/
  \<open>node->container_count\<close>) is the list of its first \<open>count\<close> elements.
  A \<open>node_t*\<close> into \<open>nodes\<close> is the index of the element, \<open>NULL\<close> is \<open>None\<close>.
  \<open>strcpy\<close> into a field is the assignment of the string; a source too long for its
  target is undefined behaviour in C and outside the model.
  Field names that several structs share carry a prefix: \<open>n_\<close> for \<open>node_t\<close>,
  \<open>c_\<close> for \<open>container_t\<close>, \<open>cfg_\<close> for \<open>lxc_config_t\<close>, \<open>m_\<close> for the type code of
  \<open>message_t\<close>; \<open>resources.container_count\<close> is \<open>res_container_count\<close>.
\<close>

definition MAX_NODES :: nat where "MAX_NODES = 256"
definition MAX_CONTAINERS :: nat where "MAX_CONTAINERS = 1024"
definition MAX_NAME_LEN :: nat where "MAX_NAME_LEN = 256"
definition BUFFER_SIZE :: nat where "BUFFER_SIZE = 8192"

datatype message_type_t =
    MSG_REGISTER_NODE | MSG_NODE_HEARTBEAT | MSG_DEPLOY_CONTAINER | MSG_START_CONTAINER
  | MSG_STOP_CONTAINER | MSG_DELETE_CONTAINER | MSG_CONTAINER_STATUS | MSG_NODE_STATUS
  | MSG_ERROR | MSG_ACK

datatype container_state_t =
    CONTAINER_STOPPED | CONTAINER_STARTING | CONTAINER_RUNNING | CONTAINER_STOPPING
  | CONTAINER_ERROR

datatype node_state_t =
    NODE_DISCONNECTED | NODE_CONNECTING | NODE_CONNECTED | NODE_BUSY | NODE_ERROR

text \<open>
  The values of a C \<open>double\<close>: not-a-number, the two infinities, and the finite values,
  each of which is a real number (the two zeros are one value). \<open>d_gt a b\<close> is the C
  comparison \<open>a > b\<close>: false as soon as one side is not a number.
\<close>

datatype double = NaN | MInf | Fin real | PInf

fun d_gt :: "double \<Rightarrow> double \<Rightarrow> bool" where
  "d_gt NaN b = False"
| "d_gt a NaN = False"
| "d_gt MInf b = False"
| "d_gt a MInf = True"
| "d_gt PInf PInf = False"
| "d_gt PInf b = True"
| "d_gt (Fin x) PInf = False"
| "d_gt (Fin x) (Fin y) = (x > y)"

record resource_info_t =
  cpu_usage :: double
  memory_usage :: double
  disk_usage :: double
  res_container_count :: int
  max_containers :: int

record lxc_config_t =
  cfg_name :: string
  image :: string
  config_file :: string
  environment_vars :: "string option"
  mount_points :: "string option"
  network_config :: "string option"
  cpu_limit :: int
  memory_limit :: int
  privileged :: int

text \<open>
  \<open>container_t\<close>: \<open>started_at\<close> and \<open>log_file\<close> are never read by the coordinator and
  \<open>deploy_container\<close> does not initialise them; they are left out.
\<close>

record container_t =
  c_id :: string
  c_name :: string
  c_node_id :: string
  c_state :: container_state_t
  c_config :: lxc_config_t
  created_at :: int

text \<open>
  \<open>node_t\<close>: \<open>containers\<close> holds the first \<open>container_count\<close> entries of the array, so
  \<open>node->container_count\<close> is the length of the list.
\<close>

record node_t =
  n_id :: string
  hostname :: string
  ip_address :: string
  port :: int
  n_state :: node_state_t
  resources :: resource_info_t
  last_heartbeat :: int
  socket_fd :: int
  containers :: "container_t list"

definition container_count :: "node_t \<Rightarrow> int" where
  "container_count n = int (length (containers n))"

section \<open>The wire: \<^verbatim>\<open>message_t\<close>, \<^verbatim>\<open>create_message\<close>, \<^verbatim>\<open>receive_message\<close> (network.c)\<close>

text \<open>
  \<open>message_t\<close> as it lies in memory: the enumerator code of \<open>type\<close>, the two
  \<open>char[MAX_NAME_LEN]\<close> arrays, \<open>data_length\<close> and the \<open>data\<close> array, whose size the
  header computes from \<open>BUFFER_SIZE\<close> with \<open>sizeof(message_type_t) = sizeof(int) = 4\<close>.
  A frame that arrives can hold any code in \<open>type\<close>, so the field is the code and
  \<open>type_of_code\<close> reads it the way the \<open>switch\<close> does (\<open>None\<close> is its \<open>default\<close>).
\<close>

definition NUL :: char where "NUL = CHR 0x00"

definition DATA_SIZE :: nat where
  "DATA_SIZE = BUFFER_SIZE - 4 - 2 * MAX_NAME_LEN - 4"

record message_t =
  m_type :: nat
  sender_id :: string
  recipient_id :: string
  data_length :: int
  data :: string

fun type_code :: "message_type_t \<Rightarrow> nat" where
  "type_code MSG_REGISTER_NODE = 0"
| "type_code MSG_NODE_HEARTBEAT = 1"
| "type_code MSG_DEPLOY_CONTAINER = 2"
| "type_code MSG_START_CONTAINER = 3"
| "type_code MSG_STOP_CONTAINER = 4"
| "type_code MSG_DELETE_CONTAINER = 5"
| "type_code MSG_CONTAINER_STATUS = 6"
| "type_code MSG_NODE_STATUS = 7"
| "type_code MSG_ERROR = 8"
| "type_code MSG_ACK = 9"

definition type_of_code :: "nat \<Rightarrow> message_type_t option" where
  "type_of_code n =
     (if n = 0 then Some MSG_REGISTER_NODE else if n = 1 then Some MSG_NODE_HEARTBEAT
      else if n = 2 then Some MSG_DEPLOY_CONTAINER else if n = 3 then Some MSG_START_CONTAINER
      else if n = 4 then Some MSG_STOP_CONTAINER else if n = 5 then Some MSG_DELETE_CONTAINER
      else if n = 6 then Some MSG_CONTAINER_STATUS else if n = 7 then Some MSG_NODE_STATUS
      else if n = 8 then Some MSG_ERROR else if n = 9 then Some MSG_ACK else None)"

text \<open>The C string held in a char array: the characters before the first NUL.\<close>

definition c_str :: "string \<Rightarrow> string" where
  "c_str bytes = takeWhile (\<lambda>c. c \<noteq> NUL) bytes"

text \<open>What a copy of \<open>bytes\<close> leaves in an array of \<open>len\<close> chars that \<open>memset\<close> zeroed.\<close>

definition zero_fill :: "nat \<Rightarrow> string \<Rightarrow> string" where
  "zero_fill len bytes = bytes @ replicate (len - length bytes) NUL"

text \<open>
  \<open>create_message\<close>. \<open>sender\<close> and \<open>recipient\<close> are C strings, \<open>payload\<close> is the memory
  at \<open>data\<close>; every call in the repository passes non-null pointers. \<open>strncpy\<close> copies at
  most \<open>MAX_NAME_LEN - 1\<close> characters; \<open>memcpy\<close> copies \<open>copy_len\<close> bytes.
\<close>

definition create_message ::
  "message_type_t \<Rightarrow> string \<Rightarrow> string \<Rightarrow> string \<Rightarrow> int \<Rightarrow> message_t" where
  "create_message ty sender recipient payload data_len =
     (let copy_len = (if data_len < int DATA_SIZE then data_len else int DATA_SIZE) in
      \<lparr>m_type = type_code ty,
       sender_id = zero_fill MAX_NAME_LEN (take (MAX_NAME_LEN - 1) sender),
       recipient_id = zero_fill MAX_NAME_LEN (take (MAX_NAME_LEN - 1) recipient),
       data_length = (if data_len > 0 then copy_len else 0),
       data = (if data_len > 0 then zero_fill DATA_SIZE (take (nat copy_len) payload)
               else replicate DATA_SIZE NUL)\<rparr>)"

text \<open>
  \<open>send\<close> transmits the bytes of the struct and \<open>recv\<close> stores them into one: the
  frame is the object representation, here with 4-byte little-endian \<open>type\<close> and
  \<open>data_length\<close> (two's complement) and no padding, which makes it \<open>BUFFER_SIZE\<close> bytes.
\<close>

definition le32 :: "nat \<Rightarrow> string" where
  "le32 n = [char_of n, char_of (n div 256), char_of (n div 65536), char_of (n div 16777216)]"

definition un_le32 :: "string \<Rightarrow> nat" where
  "un_le32 bytes =
     of_char (bytes ! 0) + 256 * of_char (bytes ! 1) + 65536 * of_char (bytes ! 2)
     + 16777216 * of_char (bytes ! 3)"

definition int32_bits :: "int \<Rightarrow> nat" where
  "int32_bits x = nat (x mod 4294967296)"

definition int32_of_bits :: "nat \<Rightarrow> int" where
  "int32_of_bits n = (if n < 2147483648 then int n else int n - 4294967296)"

definition frame_of :: "message_t \<Rightarrow> string" where
  "frame_of msg =
     le32 (m_type msg) @ sender_id msg @ recipient_id msg
     @ le32 (int32_bits (data_length msg)) @ data msg"

definition message_of_frame :: "string \<Rightarrow> message_t" where
  "message_of_frame bytes =
     \<lparr>m_type = un_le32 (take 4 bytes),
      sender_id = take MAX_NAME_LEN (drop 4 bytes),
      recipient_id = take MAX_NAME_LEN (drop (4 + MAX_NAME_LEN) bytes),
      data_length = int32_of_bits (un_le32 (take 4 (drop (4 + 2 * MAX_NAME_LEN) bytes))),
      data = drop (4 + 2 * MAX_NAME_LEN + 4) bytes\<rparr>"

text \<open>
  \<open>receive_message\<close>, given the bytes that \<open>recv\<close> delivered (none when it failed or
  the peer closed): anything but a whole frame is the error return.
\<close>

definition receive_message :: "int \<Rightarrow> string \<Rightarrow> message_t option" where
  "receive_message fd received =
     (if fd < 0 then None
      else if length received \<noteq> BUFFER_SIZE then None
      else Some (message_of_frame received))"

text \<open>A struct value whose fields have the sizes and ranges of their C types.\<close>

definition frame_sized :: "message_t \<Rightarrow> bool" where
  "frame_sized msg \<longleftrightarrow>
     length (sender_id msg) = MAX_NAME_LEN \<and> length (recipient_id msg) = MAX_NAME_LEN
     \<and> length (data msg) = DATA_SIZE \<and> m_type msg < 4294967296
     \<and> - 2147483648 \<le> data_length msg \<and> data_length msg < 2147483648"

section \<open>What the code takes from its platform\<close>

text \<open>
  The coordinator casts message payloads to structs and copies structs into payloads;
  how a struct lies in memory is the platform's matter and is kept as a parameter, as
  are the outcome of \<open>send\<close>, what \<open>sscanf\<close> stores, and the arithmetic on doubles.
  The general theorems below hold for all values of these parameters; the closed
  instances fix them to \<open>sample_env\<close>.
  \<^item> \<open>d_add\<close>, \<open>d_sub\<close>, \<open>d_mul\<close>, \<open>d_div\<close>: the operations \<open>+\<close>, \<open>-\<close>, \<open>*\<close>, \<open>/\<close> on
    doubles, with whatever rounding the platform does; \<open>lit_0_3\<close>, \<open>lit_0_2\<close>: the
    doubles that the literals \<open>0.3\<close> and \<open>0.2\<close> denote (\<open>100.0\<close>, \<open>1.0\<close>, \<open>-1.0\<close> and
    every \<open>int\<close> are doubles exactly);
  \<^item> \<open>send_ok fd\<close>: \<open>send(fd, msg, sizeof(message_t), 0)\<close> returns \<open>sizeof(message_t)\<close>;
  \<^item> \<open>sizeof_resource_info_t\<close>, \<open>sizeof_container_t\<close>, \<open>sizeof_lxc_config_t\<close>;
  \<^item> \<open>config_bytes\<close>: the object representation of an \<open>lxc_config_t\<close>;
  \<^item> \<open>resources_of\<close>: the \<open>resource_info_t\<close> that \<open>memcpy\<close> reads from \<open>msg.data\<close>;
  \<^item> \<open>update_id\<close>, \<open>update_state\<close>: \<open>id\<close> and \<open>state\<close> of \<open>(container_t*)msg.data\<close>;
  \<^item> \<open>scan_registration\<close>: \<open>hostname\<close>, \<open>ip_address\<close> and \<open>port\<close> after
    \<open>sscanf(msg.data, "%s %s %d", ...)\<close>.
\<close>

record env =
  d_add :: "double \<Rightarrow> double \<Rightarrow> double"
  d_sub :: "double \<Rightarrow> double \<Rightarrow> double"
  d_mul :: "double \<Rightarrow> double \<Rightarrow> double"
  d_div :: "double \<Rightarrow> double \<Rightarrow> double"
  lit_0_3 :: double
  lit_0_2 :: double
  send_ok :: "int \<Rightarrow> bool"
  sizeof_resource_info_t :: nat
  sizeof_container_t :: nat
  sizeof_lxc_config_t :: nat
  config_bytes :: "lxc_config_t \<Rightarrow> string"
  resources_of :: "string \<Rightarrow> resource_info_t"
  update_id :: "string \<Rightarrow> string"
  update_state :: "string \<Rightarrow> container_state_t"
  scan_registration :: "string \<Rightarrow> string \<times> string \<times> int"

text \<open>An \<open>int\<close> converted to \<open>size_t\<close> for a comparison with \<open>sizeof\<close> (64-bit).\<close>

definition size_t_of_int :: "int \<Rightarrow> nat" where
  "size_t_of_int x = nat (x mod 18446744073709551616)"

section \<open>Placement: \<^verbatim>\<open>find_best_node\<close> (coordinator.c)\<close>

text \<open>
  The two \<open>continue\<close> tests of the loop: a node passes when neither fires. The config
  argument is only tested for \<open>NULL\<close> and printed.
\<close>

definition skipped :: "int \<Rightarrow> node_t \<Rightarrow> bool" where
  "skipped current_time node \<longleftrightarrow>
     (n_state node \<noteq> NODE_CONNECTED \<or> current_time - last_heartbeat node > 30)
     \<or> container_count node \<ge> max_containers (resources node)"

text \<open>
  The score, with the operations in the order in which C evaluates the expression;
  the \<open>int\<close> operands of the quotient are converted to \<open>double\<close>, which is exact.
\<close>

definition score :: "env \<Rightarrow> node_t \<Rightarrow> double" where
  "score env node =
    (let cpu_available = d_sub env (Fin 100) (cpu_usage (resources node));
         memory_available = d_sub env (Fin 100) (memory_usage (resources node));
         disk_available = d_sub env (Fin 100) (disk_usage (resources node));
         container_load =
           d_div env (Fin (real_of_int (container_count node)))
             (Fin (real_of_int (max_containers (resources node))))
     in d_add env
          (d_add env
             (d_add env (d_mul env cpu_available (lit_0_3 env))
                (d_mul env memory_available (lit_0_3 env)))
             (d_mul env disk_available (lit_0_2 env)))
          (d_mul env (d_mul env (d_sub env (Fin 1) container_load) (Fin 100)) (lit_0_2 env)))"

text \<open>
  The \<open>for\<close> loop over \<open>nodes[i]\<close>, from index \<open>i\<close> on, carrying \<open>best_node\<close> and
  \<open>best_score\<close>, which starts at \<open>-1.0\<close>.
\<close>

fun best_loop ::
  "env \<Rightarrow> int \<Rightarrow> node_t list \<Rightarrow> nat \<Rightarrow> nat option \<times> double \<Rightarrow> nat option \<times> double" where
  "best_loop env current_time [] i (best_node, best_score) = (best_node, best_score)"
| "best_loop env current_time (node # rest) i (best_node, best_score) =
     (if skipped current_time node then
        best_loop env current_time rest (Suc i) (best_node, best_score)
      else if d_gt (score env node) best_score then
        best_loop env current_time rest (Suc i) (Some i, score env node)
      else best_loop env current_time rest (Suc i) (best_node, best_score))"

definition find_best_node :: "env \<Rightarrow> int \<Rightarrow> node_t list \<Rightarrow> lxc_config_t \<Rightarrow> nat option" where
  "find_best_node env current_time nodes config =
     fst (best_loop env current_time nodes 0 (None, Fin (- 1)))"

section \<open>Coordinator state\<close>

text \<open>
  The globals of network.c and coordinator.c: the registry \<open>nodes\<close>, the ledger
  \<open>deployed_containers\<close>, and, for the effect of \<open>send\<close>, the frames handed to the
  network so far, each with its descriptor. The model runs the operations one at a
  time: threads do not interleave inside an operation (the code holds its locks for
  parts of an operation only).
\<close>

record coord =
  nodes :: "node_t list"
  deployed_containers :: "container_t list"
  sent :: "(int \<times> string) list"
  slot_fds :: "int list"

text \<open>
  \<open>slot_fds\<close> holds the \<open>socket_fd\<close> fields that lie in the array \<open>nodes\<close> from
  \<open>nodes[node_count]\<close> on, as far as any was ever written; the slots behind them hold
  0, as all static storage does at the start. \<open>register_node\<close> does not assign
  \<open>socket_fd\<close> of a new entry, so the entry takes what its slot holds; no other field of
  a free slot is read before it is written.
\<close>

definition init_coord :: coord where
  "init_coord = \<lparr>nodes = [], deployed_containers = [], sent = [], slot_fds = []\<rparr>"

text \<open>
  The error returns. Every one is \<open>return -1\<close> in the source; the constructors name the
  message printed on the way.
\<close>

datatype err =
    MaxNodesReached | NodeNotFound | NodeNotConnected | SendFailed | ContainerNotFound
  | NoSuitableNode

definition return_code :: "err option \<Rightarrow> int" where
  "return_code r = (case r of None \<Rightarrow> 0 | Some e \<Rightarrow> - 1)"

definition send_message :: "env \<Rightarrow> int \<Rightarrow> message_t \<Rightarrow> coord \<Rightarrow> int \<times> coord" where
  "send_message env fd msg s =
     (if fd < 0 then (- 1, s)
      else if send_ok env fd then (0, s\<lparr>sent := sent s @ [(fd, frame_of msg)]\<rparr>)
      else (- 1, s))"

section \<open>The registry (network.c)\<close>

fun find_node_from :: "nat \<Rightarrow> node_t list \<Rightarrow> string \<Rightarrow> nat option" where
  "find_node_from i [] node_id = None"
| "find_node_from i (node # rest) node_id =
     (if n_id node = node_id then Some i else find_node_from (Suc i) rest node_id)"

definition find_node_by_id :: "node_t list \<Rightarrow> string \<Rightarrow> nat option" where
  "find_node_by_id ns node_id = find_node_from 0 ns node_id"

text \<open>
  \<open>register_node\<close>. The capacity test comes first, then the scan for an existing id
  (the loop of \<open>find_node_by_id\<close>), then the new entry at \<open>nodes[node_count]\<close>, whose
  \<open>socket_fd\<close> is the one its slot holds.
\<close>

definition register_node ::
  "int \<Rightarrow> string \<Rightarrow> string \<Rightarrow> string \<Rightarrow> int \<Rightarrow> coord \<Rightarrow> err option \<times> coord" where
  "register_node now node_id host ip prt s =
     (if length (nodes s) \<ge> MAX_NODES then (Some MaxNodesReached, s)
      else case find_node_by_id (nodes s) node_id of
        Some i \<Rightarrow>
          (None, s\<lparr>nodes := (nodes s)[i := (nodes s ! i)
             \<lparr>hostname := host, ip_address := ip, port := prt, n_state := NODE_CONNECTED,
              last_heartbeat := now\<rparr>]\<rparr>)
      | None \<Rightarrow>
          (None, s\<lparr>nodes := nodes s @
             [\<lparr>n_id = node_id, hostname = host, ip_address = ip, port = prt,
               n_state = NODE_CONNECTED,
               resources = \<lparr>cpu_usage = Fin 0, memory_usage = Fin 0, disk_usage = Fin 0,
                            res_container_count = 0, max_containers = 0\<rparr>,
               last_heartbeat = now,
               socket_fd = (case slot_fds s of [] \<Rightarrow> 0 | fd # fds \<Rightarrow> fd),
               containers = []\<rparr>],
             slot_fds := drop 1 (slot_fds s)\<rparr>))"

text \<open>
  \<open>unregister_node\<close>: the entries after the first match move down by one, and the slot
  of the last entry, now free, keeps its content. Closing the descriptor leaves no
  trace in the coordinator's state.
\<close>

definition unregister_node :: "string \<Rightarrow> coord \<Rightarrow> err option \<times> coord" where
  "unregister_node node_id s =
     (case find_node_by_id (nodes s) node_id of
        Some i \<Rightarrow>
          (None, s\<lparr>nodes := take i (nodes s) @ drop (Suc i) (nodes s),
                   slot_fds := socket_fd (last (nodes s)) # slot_fds s\<rparr>)
      | None \<Rightarrow> (Some NodeNotFound, s))"

section \<open>The connection handler (network.c)\<close>

text \<open>The status loop: the first entry of the node's list with the reported id.\<close>

fun set_first_state :: "string \<Rightarrow> container_state_t \<Rightarrow> container_t list \<Rightarrow> container_t list" where
  "set_first_state cid st [] = []"
| "set_first_state cid st (c # cs) =
     (if c_id c = cid then c\<lparr>c_state := st\<rparr> # cs else c # set_first_state cid st cs)"

text \<open>
  One turn of the \<open>while\<close> loop of \<open>handle_client_connection\<close> after a frame was
  received at time \<open>now\<close>: the \<open>switch\<close>. The pair is the thread's \<open>node_id\<close> variable and
  the globals.
\<close>

definition handle_message ::
  "env \<Rightarrow> int \<Rightarrow> int \<Rightarrow> message_t \<Rightarrow> string \<times> coord \<Rightarrow> string \<times> coord" where
  "handle_message env now client_socket msg st =
     (case st of (node_id, s) \<Rightarrow>
      (case type_of_code (m_type msg) of
        Some MSG_REGISTER_NODE \<Rightarrow>
          (case scan_registration env (data msg) of (host, ip, prt) \<Rightarrow>
           let node_id' = c_str (sender_id msg) in
           (case register_node now node_id' host ip prt s of
             (None, s1) \<Rightarrow>
               let s2 = (case find_node_by_id (nodes s1) node_id' of
                           Some k \<Rightarrow> s1\<lparr>nodes := (nodes s1)[k := (nodes s1 ! k)
                                        \<lparr>socket_fd := client_socket\<rparr>]\<rparr>
                         | None \<Rightarrow> s1);
                   ack_msg = create_message MSG_ACK ''coordinator'' node_id' ''registered'' 10
               in (node_id', snd (send_message env client_socket ack_msg s2))
           | (Some e, s1) \<Rightarrow> (node_id', s1)))
      | Some MSG_NODE_HEARTBEAT \<Rightarrow>
          (case find_node_by_id (nodes s) (c_str (sender_id msg)) of
             Some k \<Rightarrow>
               let node = (nodes s ! k)\<lparr>last_heartbeat := now, n_state := NODE_CONNECTED\<rparr>;
                   node' = (if size_t_of_int (data_length msg) \<ge> sizeof_resource_info_t env
                            then node\<lparr>resources := resources_of env (data msg)\<rparr> else node)
               in (node_id, s\<lparr>nodes := (nodes s)[k := node']\<rparr>)
           | None \<Rightarrow> (node_id, s))
      | Some MSG_CONTAINER_STATUS \<Rightarrow>
          (case find_node_by_id (nodes s) (c_str (sender_id msg)) of
             Some k \<Rightarrow>
               if size_t_of_int (data_length msg) \<ge> sizeof_container_t env then
                 (node_id, s\<lparr>nodes := (nodes s)[k := (nodes s ! k)
                    \<lparr>containers := set_first_state (update_id env (data msg))
                        (update_state env (data msg)) (containers (nodes s ! k))\<rparr>]\<rparr>)
               else (node_id, s)
           | None \<Rightarrow> (node_id, s))
      | _ \<Rightarrow> (node_id, s)))"

text \<open>The code after the loop: \<open>Clean up when client disconnects\<close>.\<close>

definition client_cleanup :: "string \<Rightarrow> coord \<Rightarrow> coord" where
  "client_cleanup node_id s =
     (if length node_id > 0 then
        (case find_node_by_id (nodes s) node_id of
           Some k \<Rightarrow> s\<lparr>nodes := (nodes s)[k := (nodes s ! k)
                        \<lparr>n_state := NODE_DISCONNECTED, socket_fd := - 1\<rparr>]\<rparr>
         | None \<Rightarrow> s)
      else s)"

text \<open>
  The whole of \<open>handle_client_connection\<close> for a connection that delivers the given
  byte blocks, each at its time, and is closed afterwards: the loop ends at the first
  block that is not a whole frame, or when the blocks are used up, and the cleanup runs.
\<close>

fun client_loop :: "env \<Rightarrow> int \<Rightarrow> (int \<times> string) list \<Rightarrow> string \<times> coord \<Rightarrow> string \<times> coord" where
  "client_loop env client_socket [] st = st"
| "client_loop env client_socket ((now, received) # rest) st =
     (case receive_message client_socket received of
        None \<Rightarrow> st
      | Some msg \<Rightarrow> client_loop env client_socket rest (handle_message env now client_socket msg st))"

definition handle_client_connection ::
  "env \<Rightarrow> int \<Rightarrow> (int \<times> string) list \<Rightarrow> coord \<Rightarrow> coord" where
  "handle_client_connection env client_socket blocks s =
     (case client_loop env client_socket blocks ([], s) of
        (node_id, s') \<Rightarrow> client_cleanup node_id s')"

section \<open>Operator commands (coordinator.c)\<close>

text \<open>The search loop that opens \<open>start\<close>, \<open>stop\<close>, \<open>delete\<close> and \<open>get_container_status\<close>.\<close>

fun find_container_from :: "nat \<Rightarrow> container_t list \<Rightarrow> string \<Rightarrow> nat option" where
  "find_container_from i [] container_id = None"
| "find_container_from i (c # rest) container_id =
     (if c_id c = container_id then Some i else find_container_from (Suc i) rest container_id)"

definition find_container :: "container_t list \<Rightarrow> string \<Rightarrow> nat option" where
  "find_container cs container_id = find_container_from 0 cs container_id"

text \<open>
  \<open>deploy_container\<close>. \<open>snprintf\<close> into \<open>container->id\<close> keeps at most
  \<open>MAX_NAME_LEN - 1\<close> characters.
\<close>

definition deploy_container ::
  "env \<Rightarrow> int \<Rightarrow> string \<Rightarrow> lxc_config_t \<Rightarrow> coord \<Rightarrow> err option \<times> coord" where
  "deploy_container env now node_id config s =
     (case find_node_by_id (nodes s) node_id of
        None \<Rightarrow> (Some NodeNotFound, s)
      | Some k \<Rightarrow>
          if n_state (nodes s ! k) \<noteq> NODE_CONNECTED then (Some NodeNotConnected, s)
          else
            let msg = create_message MSG_DEPLOY_CONTAINER ''coordinator'' node_id
                        (config_bytes env config) (int (sizeof_lxc_config_t env))
            in (case send_message env (socket_fd (nodes s ! k)) msg s of
              (r, s1) \<Rightarrow>
                if r \<noteq> 0 then (Some SendFailed, s1)
                else if length (deployed_containers s1) < MAX_CONTAINERS then
                  let container =
                        \<lparr>c_id = take (MAX_NAME_LEN - 1) (node_id @ ''_'' @ cfg_name config),
                         c_name = cfg_name config, c_node_id = node_id,
                         c_state = CONTAINER_STARTING, c_config = config, created_at = now\<rparr>;
                      node = nodes s1 ! k
                  in (None, s1\<lparr>deployed_containers := deployed_containers s1 @ [container],
                        nodes := (if container_count node < int MAX_CONTAINERS
                                  then (nodes s1)[k := node\<lparr>containers :=
                                         containers node @ [container]\<rparr>]
                                  else nodes s1)\<rparr>)
                else (None, s1)))"

definition deploy_container_auto ::
  "env \<Rightarrow> int \<Rightarrow> lxc_config_t \<Rightarrow> coord \<Rightarrow> err option \<times> coord" where
  "deploy_container_auto env now config s =
     (case find_best_node env now (nodes s) config of
        None \<Rightarrow> (Some NoSuitableNode, s)
      | Some k \<Rightarrow> deploy_container env now (n_id (nodes s ! k)) config s)"

definition start_container :: "env \<Rightarrow> string \<Rightarrow> coord \<Rightarrow> err option \<times> coord" where
  "start_container env container_id s =
     (case find_container (deployed_containers s) container_id of
        None \<Rightarrow> (Some ContainerNotFound, s)
      | Some i \<Rightarrow>
          let container = deployed_containers s ! i in
          (case find_node_by_id (nodes s) (c_node_id container) of
            None \<Rightarrow> (Some NodeNotFound, s)
          | Some k \<Rightarrow>
              let node = nodes s ! k;
                  msg = create_message MSG_START_CONTAINER ''coordinator'' (n_id node)
                          (c_name container) (int (length (c_name container)))
              in (case send_message env (socket_fd node) msg s of
                (r, s1) \<Rightarrow>
                  if r \<noteq> 0 then (Some SendFailed, s1)
                  else (None, s1\<lparr>deployed_containers := (deployed_containers s1)
                          [i := container\<lparr>c_state := CONTAINER_STARTING\<rparr>]\<rparr>))))"

definition stop_container :: "env \<Rightarrow> string \<Rightarrow> coord \<Rightarrow> err option \<times> coord" where
  "stop_container env container_id s =
     (case find_container (deployed_containers s) container_id of
        None \<Rightarrow> (Some ContainerNotFound, s)
      | Some i \<Rightarrow>
          let container = deployed_containers s ! i in
          (case find_node_by_id (nodes s) (c_node_id container) of
            None \<Rightarrow> (Some NodeNotFound, s)
          | Some k \<Rightarrow>
              let node = nodes s ! k;
                  msg = create_message MSG_STOP_CONTAINER ''coordinator'' (n_id node)
                          (c_name container) (int (length (c_name container)))
              in (case send_message env (socket_fd node) msg s of
                (r, s1) \<Rightarrow>
                  if r \<noteq> 0 then (Some SendFailed, s1)
                  else (None, s1\<lparr>deployed_containers := (deployed_containers s1)
                          [i := container\<lparr>c_state := CONTAINER_STOPPING\<rparr>]\<rparr>))))"

text \<open>The removal loop of \<open>delete_container\<close> on the node's list: the first match goes.\<close>

fun remove_first :: "string \<Rightarrow> container_t list \<Rightarrow> container_t list" where
  "remove_first container_id [] = []"
| "remove_first container_id (c # cs) =
     (if c_id c = container_id then cs else c # remove_first container_id cs)"

definition delete_container :: "env \<Rightarrow> string \<Rightarrow> coord \<Rightarrow> err option \<times> coord" where
  "delete_container env container_id s =
     (case find_container (deployed_containers s) container_id of
        None \<Rightarrow> (Some ContainerNotFound, s)
      | Some i \<Rightarrow>
          let container = deployed_containers s ! i;
              s2 = (case find_node_by_id (nodes s) (c_node_id container) of
                      None \<Rightarrow> s
                    | Some k \<Rightarrow>
                        let node = nodes s ! k;
                            msg = create_message MSG_DELETE_CONTAINER ''coordinator'' (n_id node)
                                    (c_name container) (int (length (c_name container)));
                            s1 = snd (send_message env (socket_fd node) msg s)
                        in s1\<lparr>nodes := (nodes s1)[k := node\<lparr>containers :=
                                 remove_first container_id (containers node)\<rparr>]\<rparr>)
          in (None, s2\<lparr>deployed_containers :=
                take i (deployed_containers s2) @ drop (Suc i) (deployed_containers s2)\<rparr>))"

definition get_container_status :: "coord \<Rightarrow> string \<Rightarrow> container_state_t" where
  "get_container_status s container_id =
     (case find_container (deployed_containers s) container_id of
        Some i \<Rightarrow> c_state (deployed_containers s ! i)
      | None \<Rightarrow> CONTAINER_ERROR)"

section \<open>Runs of the coordinator\<close>

text \<open>
  Everything that changes the coordinator's state before shutdown, as one action each:
  a frame handled by a connection thread (with its descriptor and the thread's
  \<open>node_id\<close> variable), the cleanup of a connection thread, the operator's commands,
  \<open>deploy_container\<close> for a chosen node, and \<open>unregister_node\<close>, which network.c defines
  and nothing calls. A run is a list of actions, each with the platform parameters and
  the clock value it meets.
\<close>

datatype action =
    Frame int string message_t
  | Closed string
  | Deploy string lxc_config_t
  | DeployAuto lxc_config_t
  | Start string
  | Stop string
  | Delete string
  | Unregister string

fun step :: "env \<Rightarrow> int \<Rightarrow> action \<Rightarrow> coord \<Rightarrow> coord" where
  "step env now (Frame client_socket node_id msg) s =
     snd (handle_message env now client_socket msg (node_id, s))"
| "step env now (Closed node_id) s = client_cleanup node_id s"
| "step env now (Deploy node_id config) s = snd (deploy_container env now node_id config s)"
| "step env now (DeployAuto config) s = snd (deploy_container_auto env now config s)"
| "step env now (Start container_id) s = snd (start_container env container_id s)"
| "step env now (Stop container_id) s = snd (stop_container env container_id s)"
| "step env now (Delete container_id) s = snd (delete_container env container_id s)"
| "step env now (Unregister node_id) s = snd (unregister_node node_id s)"

fun run :: "(env \<times> int \<times> action) list \<Rightarrow> coord \<Rightarrow> coord" where
  "run [] s = s"
| "run ((env, now, a) # rest) s = run rest (step env now a s)"

section \<open>Observations and registry edits\<close>

text \<open>
  The state of worker \<open>w\<close> as a lookup by id sees it (what \<open>list_nodes\<close> prints for it,
  what \<open>deploy_container\<close> tests): \<open>None\<close> when no record has the id.
\<close>

definition worker_state :: "coord \<Rightarrow> string \<Rightarrow> node_state_t option" where
  "worker_state s w = map_option (\<lambda>k. n_state (nodes s ! k)) (find_node_by_id (nodes s) w)"

text \<open>
  A heartbeat frame from sender \<open>w\<close> that is long enough for the handler to copy a
  \<open>resource_info_t\<close> out of it.
\<close>

fun resource_heartbeat :: "env \<Rightarrow> string \<Rightarrow> action \<Rightarrow> bool" where
  "resource_heartbeat env w (Frame client_socket node_id msg) =
     (type_of_code (m_type msg) = Some MSG_NODE_HEARTBEAT \<and> c_str (sender_id msg) = w
      \<and> size_t_of_int (data_length msg) \<ge> sizeof_resource_info_t env)"
| "resource_heartbeat env w a = False"

text \<open>
  What one action can do to one registry record \<open>n\<close>, giving \<open>y\<close>: the state becomes
  \<open>NODE_CONNECTED\<close>, or the cleanup of a connection with this id detaches it, or state
  and descriptor stay; and the resources stay unless the action is a heartbeat of this
  id that carries them.
\<close>

definition record_change :: "env \<Rightarrow> action \<Rightarrow> node_t \<Rightarrow> node_t \<Rightarrow> bool" where
  "record_change env a n y \<longleftrightarrow>
     n_id y = n_id n
     \<and> (n_state y = NODE_CONNECTED
        \<or> (n_state y = NODE_DISCONNECTED \<and> socket_fd y = - 1 \<and> a = Closed (n_id n))
        \<or> (n_state y = n_state n \<and> socket_fd y = socket_fd n))
     \<and> (resources y = resources n \<or> resource_heartbeat env (n_id n) a)"

text \<open>
  What one action can do to the registry: nothing, a change of one record, a new
  connected record without resources at the end, the removal of a record by
  \<open>unregister_node\<close> for its id, or several of these in a row.
\<close>

inductive registry_edit :: "env \<Rightarrow> action \<Rightarrow> node_t list \<Rightarrow> node_t list \<Rightarrow> bool"
  for env :: env and a :: action where
    edit_none: "registry_edit env a ns ns"
  | edit_record: "k < length ns \<Longrightarrow> record_change env a (ns ! k) y \<Longrightarrow>
      registry_edit env a ns (ns[k := y])"
  | edit_new: "n_state y = NODE_CONNECTED \<Longrightarrow> max_containers (resources y) = 0 \<Longrightarrow>
      registry_edit env a ns (ns @ [y])"
  | edit_remove: "i < length ns \<Longrightarrow> a = Unregister (n_id (ns ! i)) \<Longrightarrow>
      registry_edit env a ns (take i ns @ drop (Suc i) ns)"
  | edit_then: "registry_edit env a ns ms \<Longrightarrow> registry_edit env a ms ls \<Longrightarrow>
      registry_edit env a ns ls"

section \<open>Scenario data\<close>

text \<open>
  The workers of the spec's scenarios S1, S2 and S4: a connected worker with
  \<open>cpu = mem = disk = 10\<close>, no containers and room for 50, whose last heartbeat came at
  time 90; and a saturated one with \<open>max_containers = 2\<close> holding two containers.
\<close>

definition sample_resources :: "int \<Rightarrow> resource_info_t" where
  "sample_resources cap =
     \<lparr>cpu_usage = Fin 10, memory_usage = Fin 10, disk_usage = Fin 10,
      res_container_count = 0, max_containers = cap\<rparr>"

definition sample_config :: "string \<Rightarrow> lxc_config_t" where
  "sample_config nm =
     \<lparr>cfg_name = nm, image = ''u20'', config_file = [], environment_vars = None,
      mount_points = None, network_config = None, cpu_limit = 0, memory_limit = 0,
      privileged = 0\<rparr>"

definition sample_container :: "string \<Rightarrow> string \<Rightarrow> container_state_t \<Rightarrow> container_t" where
  "sample_container nid nm st =
     \<lparr>c_id = nid @ ''_'' @ nm, c_name = nm, c_node_id = nid, c_state = st,
      c_config = sample_config nm, created_at = 80\<rparr>"

definition sample_worker :: "string \<Rightarrow> int \<Rightarrow> node_t" where
  "sample_worker nid fd =
     \<lparr>n_id = nid, hostname = ''host'', ip_address = ''10.0.0.1'', port = 8888,
      n_state = NODE_CONNECTED, resources = sample_resources 50, last_heartbeat = 90,
      socket_fd = fd, containers = []\<rparr>"

definition saturated_worker :: node_t where
  "saturated_worker =
     (sample_worker ''w1'' 5)
       \<lparr>resources := sample_resources 2,
        containers := [sample_container ''w1'' ''a'' CONTAINER_RUNNING,
                       sample_container ''w1'' ''b'' CONTAINER_RUNNING]\<rparr>"

text \<open>
  An eligible worker whose reported usage is 250 on each resource; its score is -100.
\<close>

definition overloaded_worker :: "string \<Rightarrow> node_t" where
  "overloaded_worker nid =
     (sample_worker nid 5)
       \<lparr>resources := \<lparr>cpu_usage = Fin 250, memory_usage = Fin 250, disk_usage = Fin 250,
                      res_container_count = 0, max_containers = 50\<rparr>\<rparr>"

text \<open>
  A platform for the closed instances: the layout of x86-64 Linux and arithmetic
  without rounding.
  \<^item> Arithmetic is exact on finite values and not a number elsewhere. The closed
    instances have finite operands only; they compare the scores of records with equal
    resources, or one score with \<open>-1.0\<close>, and come out the same under IEEE rounding.
  \<^item> \<open>double_of_bits\<close> reads the 64 bits of an IEEE binary64 value.
  \<^item> \<open>resource_info_t\<close> is three doubles and two ints, 32 bytes; \<open>container_t\<close> has
    \<open>id\<close>, \<open>name\<close> and \<open>node_id\<close> of 256 bytes each, \<open>state\<close> at offset 768 and 3392
    bytes in all; \<open>lxc_config_t\<close> has 1576 bytes: three strings, three pointers (null in
    the samples), three ints and padding. A state code above 4, which has no
    enumerator, is read as \<open>CONTAINER_ERROR\<close> here.
  \<^item> \<open>scan_text\<close> splits a text at blanks into two words and a decimal number.
\<close>

definition exact :: "(real \<Rightarrow> real \<Rightarrow> real) \<Rightarrow> double \<Rightarrow> double \<Rightarrow> double" where
  "exact f a b = (case (a, b) of (Fin x, Fin y) \<Rightarrow> Fin (f x y) | _ \<Rightarrow> NaN)"

definition exact_div :: "double \<Rightarrow> double \<Rightarrow> double" where
  "exact_div a b =
     (case (a, b) of (Fin x, Fin y) \<Rightarrow> (if y = 0 then NaN else Fin (x / y)) | _ \<Rightarrow> NaN)"

definition le64 :: "nat \<Rightarrow> string" where
  "le64 n = le32 (n mod 4294967296) @ le32 (n div 4294967296)"

definition un_le64 :: "string \<Rightarrow> nat" where
  "un_le64 bytes = un_le32 (take 4 bytes) + 4294967296 * un_le32 (take 4 (drop 4 bytes))"

definition double_of_bits :: "nat \<Rightarrow> double" where
  "double_of_bits bits =
     (let negative = (bits div 9223372036854775808 mod 2 = 1);
          e = bits div 4503599627370496 mod 2048;
          m = bits mod 4503599627370496;
          magnitude =
            (if e = 0 then (real m / 4503599627370496) / 2 ^ 1022
             else (1 + real m / 4503599627370496)
                  * (if e \<ge> 1023 then 2 ^ (e - 1023) else 1 / 2 ^ (1023 - e)))
      in if e = 2047 then (if m \<noteq> 0 then NaN else if negative then MInf else PInf)
         else Fin (if negative then - magnitude else magnitude))"

definition resources_lp64 :: "string \<Rightarrow> resource_info_t" where
  "resources_lp64 bytes =
     \<lparr>cpu_usage = double_of_bits (un_le64 (take 8 bytes)),
      memory_usage = double_of_bits (un_le64 (take 8 (drop 8 bytes))),
      disk_usage = double_of_bits (un_le64 (take 8 (drop 16 bytes))),
      res_container_count = int32_of_bits (un_le32 (take 4 (drop 24 bytes))),
      max_containers = int32_of_bits (un_le32 (take 4 (drop 28 bytes)))\<rparr>"

fun state_code :: "container_state_t \<Rightarrow> nat" where
  "state_code CONTAINER_STOPPED = 0"
| "state_code CONTAINER_STARTING = 1"
| "state_code CONTAINER_RUNNING = 2"
| "state_code CONTAINER_STOPPING = 3"
| "state_code CONTAINER_ERROR = 4"

definition state_of_code :: "nat \<Rightarrow> container_state_t" where
  "state_of_code n =
     (if n = 0 then CONTAINER_STOPPED else if n = 1 then CONTAINER_STARTING
      else if n = 2 then CONTAINER_RUNNING else if n = 3 then CONTAINER_STOPPING
      else CONTAINER_ERROR)"

definition config_lp64 :: "lxc_config_t \<Rightarrow> string" where
  "config_lp64 c =
     zero_fill 256 (cfg_name c) @ zero_fill 256 (image c) @ zero_fill 1024 (config_file c)
     @ replicate 24 NUL
     @ le32 (int32_bits (cpu_limit c)) @ le32 (int32_bits (memory_limit c))
     @ le32 (int32_bits (privileged c)) @ replicate 4 NUL"

definition blank :: char where "blank = CHR 0x20"

definition decimal :: "string \<Rightarrow> int" where
  "decimal digits = int (foldl (\<lambda>n c. 10 * n + (of_char c - 48)) 0 digits)"

definition scan_text :: "string \<Rightarrow> string \<times> string \<times> int" where
  "scan_text bytes =
     (let t1 = dropWhile (\<lambda>c. c = blank) (c_str bytes);
          t2 = dropWhile (\<lambda>c. c = blank) (dropWhile (\<lambda>c. c \<noteq> blank) t1);
          t3 = dropWhile (\<lambda>c. c = blank) (dropWhile (\<lambda>c. c \<noteq> blank) t2)
      in (takeWhile (\<lambda>c. c \<noteq> blank) t1, takeWhile (\<lambda>c. c \<noteq> blank) t2,
          decimal (takeWhile (\<lambda>c. c \<noteq> blank) t3)))"

definition sample_env :: env where
  "sample_env =
     \<lparr>d_add = exact (+), d_sub = exact (-), d_mul = exact (*), d_div = exact_div,
      lit_0_3 = Fin 0.3, lit_0_2 = Fin 0.2,
      send_ok = (\<lambda>fd. True), sizeof_resource_info_t = 32, sizeof_container_t = 3392,
      sizeof_lxc_config_t = 1576, config_bytes = config_lp64,
      resources_of = resources_lp64, update_id = c_str,
      update_state = (\<lambda>bytes. state_of_code (un_le32 (take 4 (drop 768 bytes)))),
      scan_registration = scan_text\<rparr>"

text \<open>
  The frames a worker sends: its registration; a heartbeat with the sample resources,
  \<open>10.0\<close> being the bits \<open>0x4024000000000000\<close>; and the status of a container, a
  \<open>container_t\<close> of which the fields behind \<open>state\<close> are zero.
\<close>

definition register_frame :: "string \<Rightarrow> message_t" where
  "register_frame nid =
     create_message MSG_REGISTER_NODE nid ''coordinator'' ''host 10.0.0.1 8888'' 18"

definition heartbeat_frame :: "string \<Rightarrow> message_t" where
  "heartbeat_frame nid =
     create_message MSG_NODE_HEARTBEAT nid ''coordinator''
       (le64 4621819117588971520 @ le64 4621819117588971520 @ le64 4621819117588971520
        @ le32 0 @ le32 50) 32"

definition status_frame :: "string \<Rightarrow> container_t \<Rightarrow> message_t" where
  "status_frame nid c =
     create_message MSG_CONTAINER_STATUS nid ''coordinator''
       (zero_fill 256 (c_id c) @ zero_fill 256 (c_name c) @ zero_fill 256 (c_node_id c)
        @ le32 (state_code (c_state c)) @ replicate 2620 NUL) 3392"

text \<open>Three-letter tags, distinct below 4096, to name many workers or containers.\<close>

definition tag :: "nat \<Rightarrow> string" where
  "tag i = [char_of (97 + i div 256), char_of (97 + i div 16 mod 16), char_of (97 + i mod 16)]"

definition full_registry :: "node_t list" where
  "full_registry = map (\<lambda>i. sample_worker (tag i) (int i + 4)) [0..<256]"

text \<open>
  The record that \<open>deploy_container\<close> makes at time 92 for the container named \<open>tag i\<close>
  on \<open>w1\<close>, and a ledger of \<open>MAX_CONTAINERS\<close> of them.
\<close>

definition deployed_record :: "nat \<Rightarrow> container_t" where
  "deployed_record i = (sample_container ''w1'' (tag i) CONTAINER_STARTING)\<lparr>created_at := 92\<rparr>"

definition full_ledger :: "container_t list" where
  "full_ledger = map deployed_record [0..<1024]"

text \<open>
  Scenario S1 up to the deployment: \<open>w1\<close> registers on descriptor 5 at time 90, sends a
  heartbeat at 91, and the operator deploys \<open>web\<close> at 92.
\<close>

definition deploy_run :: "(env \<times> int \<times> action) list" where
  "deploy_run =
     [(sample_env, 90, Frame 5 [] (register_frame ''w1'')),
      (sample_env, 91, Frame 5 ''w1'' (heartbeat_frame ''w1'')),
      (sample_env, 92, DeployAuto (sample_config ''web''))]"

text \<open>Scenario S3: after the deployment the connection of \<open>w1\<close> closes at 93.\<close>

definition closed_run :: "(env \<times> int \<times> action) list" where
  "closed_run = deploy_run @ [(sample_env, 93, Closed ''w1'')]"

definition unregistered_run :: "(env \<times> int \<times> action) list" where
  "unregistered_run = deploy_run @ [(sample_env, 93, Unregister ''w1'')]"

text \<open>Scenario S1 continued: \<open>w1\<close> reports \<open>w1_web\<close> as running at 93.\<close>

definition running_report :: message_t where
  "running_report =
     status_frame ''w1'' ((sample_container ''w1'' ''web'' CONTAINER_RUNNING)\<lparr>created_at := 92\<rparr>)"

definition status_run :: "(env \<times> int \<times> action) list" where
  "status_run = deploy_run @ [(sample_env, 93, Frame 5 ''w1'' running_report)]"

text \<open>
  A full ledger: \<open>w1\<close> registers on descriptor 5 at time 90, sends a heartbeat at 91,
  and at 92 the operator deploys the containers \<open>tag 0\<close> to \<open>tag 1023\<close> to it. And a
  worker that is connected without a descriptor, with the ledger full: after that, the
  connection of \<open>w1\<close> closes at 93, and at 94 a heartbeat naming \<open>w1\<close> arrives on
  descriptor 6.
\<close>

definition fill_run :: "nat list \<Rightarrow> (env \<times> int \<times> action) list" where
  "fill_run tags = map (\<lambda>i. (sample_env, 92, Deploy ''w1'' (sample_config (tag i)))) tags"

definition full_ledger_run :: "(env \<times> int \<times> action) list" where
  "full_ledger_run =
     [(sample_env, 90, Frame 5 [] (register_frame ''w1'')),
      (sample_env, 91, Frame 5 ''w1'' (heartbeat_frame ''w1''))] @ fill_run [0..<1024]"

definition detached_full_run :: "(env \<times> int \<times> action) list" where
  "detached_full_run =
     full_ledger_run @
     [(sample_env, 93, Closed ''w1''),
      (sample_env, 94, Frame 6 [] (heartbeat_frame ''w1''))]"

text \<open>A full registry in which the first worker's connection has closed.\<close>

definition full_state :: coord where
  "full_state =
     client_cleanup (tag 0)
       \<lparr>nodes = full_registry, deployed_containers = [], sent = [], slot_fds = []\<rparr>"

text \<open>
  A worker that goes silent: \<open>w1\<close> registers at time 0 and sends its only heartbeat at
  time 1; the operator's next command, a deployment, comes at time 100.
\<close>

definition stale_run :: "(env \<times> int \<times> action) list" where
  "stale_run =
     [(sample_env, 0, Frame 5 [] (register_frame ''w1'')),
      (sample_env, 1, Frame 5 ''w1'' (heartbeat_frame ''w1'')),
      (sample_env, 100, DeployAuto (sample_config ''web''))]"

text \<open>A worker that registers at time 90 and sends no heartbeat before a deployment.\<close>

definition unheard_run :: "(env \<times> int \<times> action) list" where
  "unheard_run = [(sample_env, 92, DeployAuto (sample_config ''web''))]"

lemmas sample_defs =
  sample_resources_def sample_config_def sample_container_def sample_worker_def
  saturated_worker_def overloaded_worker_def

lemmas placement_defs = find_best_node_def skipped_def score_def container_count_def
  exact_def exact_div_def

section \<open>Properties of the placement loop\<close>

lemma d_gt_numbers: "d_gt a b \<Longrightarrow> a \<noteq> NaN \<and> b \<noteq> NaN"
  by (cases a; cases b) simp_all

lemma d_gt_irrefl: "\<not> d_gt a a"
  by (cases a) simp_all

lemma d_gt_trans: "d_gt a b \<Longrightarrow> d_gt b c \<Longrightarrow> d_gt a c"
  by (cases a; cases b; cases c) simp_all

lemma d_gt_over: "d_gt c b \<Longrightarrow> \<not> d_gt a b \<Longrightarrow> a \<noteq> NaN \<Longrightarrow> d_gt c a"
  by (cases a; cases b; cases c) simp_all

lemma d_gt_asym: "d_gt a b \<Longrightarrow> \<not> d_gt b a"
  using d_gt_trans [of a b a] d_gt_irrefl [of a] by blast

text \<open>The score the loop ends with is the one it started with or exceeds it.\<close>

lemma best_loop_score_mono:
  "snd (best_loop env t ns i (b, bs)) = bs \<or> d_gt (snd (best_loop env t ns i (b, bs))) bs"
proof (induction ns arbitrary: i b bs)
  case Nil
  show ?case by simp
next
  case (Cons n ns)
  show ?case
  proof (cases "\<not> skipped t n \<and> d_gt (score env n) bs")
    case True
    from Cons.IH [of "Suc i" "Some i" "score env n"] True show ?thesis
      by (auto dest: d_gt_trans)
  next
    case False
    with Cons.IH [of "Suc i" b bs] show ?thesis by auto
  qed
qed

text \<open>No node that passes the tests has a score that exceeds the final one.\<close>

lemma best_loop_upper:
  "j < length ns \<Longrightarrow> \<not> skipped t (ns ! j) \<Longrightarrow>
     \<not> d_gt (score env (ns ! j)) (snd (best_loop env t ns i (b, bs)))"
proof (induction ns arbitrary: i b bs j)
  case Nil
  then show ?case by simp
next
  case (Cons n ns)
  show ?case
  proof (cases j)
    case 0
    with Cons.prems have ok: "\<not> skipped t n" by simp
    show ?thesis
    proof (cases "d_gt (score env n) bs")
      case True
      from best_loop_score_mono [of env t ns "Suc i" "Some i" "score env n"]
      have "\<not> d_gt (score env n) (snd (best_loop env t ns (Suc i) (Some i, score env n)))"
        by (auto simp: d_gt_irrefl dest: d_gt_asym)
      with ok True 0 show ?thesis by simp
    next
      case False
      from best_loop_score_mono [of env t ns "Suc i" b bs] False
      have "\<not> d_gt (score env n) (snd (best_loop env t ns (Suc i) (b, bs)))"
        by (auto dest: d_gt_trans)
      with ok False 0 show ?thesis by simp
    qed
  next
    case (Suc k)
    with Cons.prems have k: "k < length ns" "\<not> skipped t (ns ! k)" by simp_all
    show ?thesis using Suc Cons.IH [OF k] by simp
  qed
qed

text \<open>
  Either the loop keeps what it was given, or it returns an index it visited whose node
  passed both tests, whose score is the returned one and exceeds the initial one, and
  exceeds the score of every passing node before it whose score is a number.
\<close>

lemma best_loop_result:
  "best_loop env t ns i (b, bs) = (r, rs) \<Longrightarrow>
     (r = b \<and> rs = bs) \<or>
     (\<exists>k < length ns. r = Some (i + k) \<and> \<not> skipped t (ns ! k) \<and> score env (ns ! k) = rs
        \<and> d_gt rs bs
        \<and> (\<forall>j < k. \<not> skipped t (ns ! j) \<and> score env (ns ! j) \<noteq> NaN
              \<longrightarrow> d_gt rs (score env (ns ! j))))"
proof (induction ns arbitrary: i b bs)
  case Nil
  then show ?case by simp
next
  case (Cons n ns)
  let ?early = "\<lambda>ms k rs. \<forall>j < k. \<not> skipped t (ms ! j) \<and> score env (ms ! j) \<noteq> NaN
              \<longrightarrow> d_gt rs (score env (ms ! j))"
  have shift: "\<exists>k < length (n # ns). r = Some (i + k) \<and> \<not> skipped t ((n # ns) ! k)
        \<and> score env ((n # ns) ! k) = rs \<and> d_gt rs bs \<and> ?early (n # ns) k rs"
    if k: "k < length ns" "r = Some (Suc i + k)" "\<not> skipped t (ns ! k)"
      "score env (ns ! k) = rs" "d_gt rs bs" "?early ns k rs"
      and head: "\<not> skipped t n \<and> score env n \<noteq> NaN \<longrightarrow> d_gt rs (score env n)" for k
  proof -
    have "?early (n # ns) (Suc k) rs"
      using k(6) head by (auto simp: less_Suc_eq_0_disj)
    with k have "Suc k < length (n # ns) \<and> r = Some (i + Suc k)
        \<and> \<not> skipped t ((n # ns) ! Suc k) \<and> score env ((n # ns) ! Suc k) = rs \<and> d_gt rs bs
        \<and> ?early (n # ns) (Suc k) rs"
      by simp
    then show ?thesis by blast
  qed
  show ?case
  proof (cases "skipped t n")
    case True
    with Cons.prems have run: "best_loop env t ns (Suc i) (b, bs) = (r, rs)" by simp
    from Cons.IH [OF run] show ?thesis
    proof
      assume "r = b \<and> rs = bs"
      then show ?thesis by simp
    next
      assume "\<exists>k < length ns. r = Some (Suc i + k) \<and> \<not> skipped t (ns ! k)
        \<and> score env (ns ! k) = rs \<and> d_gt rs bs \<and> ?early ns k rs"
      then obtain k where "k < length ns" "r = Some (Suc i + k)" "\<not> skipped t (ns ! k)"
        "score env (ns ! k) = rs" "d_gt rs bs" "?early ns k rs"
        by blast
      from shift [OF this] True show ?thesis by simp
    qed
  next
    case False
    show ?thesis
    proof (cases "d_gt (score env n) bs")
      case True
      with False Cons.prems
      have run: "best_loop env t ns (Suc i) (Some i, score env n) = (r, rs)" by simp
      from Cons.IH [OF run] show ?thesis
      proof
        assume keep: "r = Some i \<and> rs = score env n"
        with False True have "0 < length (n # ns) \<and> r = Some (i + 0)
          \<and> \<not> skipped t ((n # ns) ! 0) \<and> score env ((n # ns) ! 0) = rs \<and> d_gt rs bs
          \<and> ?early (n # ns) 0 rs"
          by simp
        then show ?thesis by blast
      next
        assume "\<exists>k < length ns. r = Some (Suc i + k) \<and> \<not> skipped t (ns ! k)
          \<and> score env (ns ! k) = rs \<and> d_gt rs (score env n) \<and> ?early ns k rs"
        then obtain k where k: "k < length ns" "r = Some (Suc i + k)" "\<not> skipped t (ns ! k)"
          "score env (ns ! k) = rs" "d_gt rs (score env n)" "?early ns k rs"
          by blast
        from k(5) True have "d_gt rs bs" by (rule d_gt_trans)
        from shift [OF k(1-4) this k(6)] k(5) show ?thesis by simp
      qed
    next
      case nobeat: False
      with False Cons.prems have run: "best_loop env t ns (Suc i) (b, bs) = (r, rs)" by simp
      from Cons.IH [OF run] show ?thesis
      proof
        assume "r = b \<and> rs = bs"
        then show ?thesis by simp
      next
        assume "\<exists>k < length ns. r = Some (Suc i + k) \<and> \<not> skipped t (ns ! k)
          \<and> score env (ns ! k) = rs \<and> d_gt rs bs \<and> ?early ns k rs"
        then obtain k where k: "k < length ns" "r = Some (Suc i + k)" "\<not> skipped t (ns ! k)"
          "score env (ns ! k) = rs" "d_gt rs bs" "?early ns k rs"
          by blast
        have "score env n \<noteq> NaN \<longrightarrow> d_gt rs (score env n)"
          using d_gt_over [OF k(5) nobeat] by simp
        from shift [OF k] this show ?thesis by simp
      qed
    qed
  qed
qed

lemma find_best_node_Some:
  assumes "find_best_node env t ns cfg = Some k"
  shows "k < length ns \<and> \<not> skipped t (ns ! k) \<and> d_gt (score env (ns ! k)) (Fin (- 1))
    \<and> (\<forall>j < length ns. \<not> skipped t (ns ! j)
          \<longrightarrow> \<not> d_gt (score env (ns ! j)) (score env (ns ! k)))
    \<and> (\<forall>j < k. \<not> skipped t (ns ! j) \<and> score env (ns ! j) \<noteq> NaN
          \<longrightarrow> d_gt (score env (ns ! k)) (score env (ns ! j)))"
proof -
  obtain r rs where run: "best_loop env t ns 0 (None, Fin (- 1)) = (r, rs)"
    by (cases "best_loop env t ns 0 (None, Fin (- 1))")
  with assms have r: "r = Some k" by (simp add: find_best_node_def)
  from best_loop_result [OF run] r
  obtain k' where k': "k' < length ns" "r = Some (0 + k')" "\<not> skipped t (ns ! k')"
    "score env (ns ! k') = rs" "d_gt rs (Fin (- 1))"
    "\<forall>j < k'. \<not> skipped t (ns ! j) \<and> score env (ns ! j) \<noteq> NaN
        \<longrightarrow> d_gt rs (score env (ns ! j))"
    by auto
  from k'(2) r have eq: "k' = k" by simp
  have "\<forall>j < length ns. \<not> skipped t (ns ! j) \<longrightarrow> \<not> d_gt (score env (ns ! j)) rs"
    using best_loop_upper [of _ ns t env 0 None "Fin (- 1)"] run by simp
  with k' eq show ?thesis by simp
qed

lemma find_best_node_None:
  assumes "find_best_node env t ns cfg = None" "j < length ns" "\<not> skipped t (ns ! j)"
  shows "\<not> d_gt (score env (ns ! j)) (Fin (- 1))"
proof -
  obtain r rs where run: "best_loop env t ns 0 (None, Fin (- 1)) = (r, rs)"
    by (cases "best_loop env t ns 0 (None, Fin (- 1))")
  with assms(1) have r: "r = None" by (simp add: find_best_node_def)
  from best_loop_result [OF run] r have "rs = Fin (- 1)" by auto
  moreover have "\<not> d_gt (score env (ns ! j)) rs"
    using best_loop_upper [OF assms(2,3), of env 0 None "Fin (- 1)"] run by simp
  ultimately show ?thesis by simp
qed

lemma find_best_node_all_skipped:
  assumes "\<forall>n \<in> set ns. skipped t n"
  shows "find_best_node env t ns cfg = None"
proof (cases "find_best_node env t ns cfg")
  case None
  then show ?thesis .
next
  case (Some k)
  from find_best_node_Some [OF Some] have "k < length ns" "\<not> skipped t (ns ! k)" by simp_all
  with assms show ?thesis by (metis nth_mem)
qed

section \<open>Properties of the wire format\<close>

lemma un_le32_le32: "n < 4294967296 \<Longrightarrow> un_le32 (le32 n) = n"
proof -
  assume n: "n < 4294967296"
  have d3: "n div 16777216 < 256" using n by simp
  have e1: "n = 256 * (n div 256) + n mod 256" by simp
  have h2: "n div 256 div 256 = n div 65536"
    using div_mult2_eq [of n 256 256] by simp
  have h3: "n div 65536 div 256 = n div 16777216"
    using div_mult2_eq [of n 65536 256] by simp
  have e2: "n div 256 = 256 * (n div 65536) + n div 256 mod 256"
    using mult_div_mod_eq [of 256 "n div 256"] h2 by simp
  have e3: "n div 65536 = 256 * (n div 16777216) + n div 65536 mod 256"
    using mult_div_mod_eq [of 256 "n div 65536"] h3 by simp
  have "un_le32 (le32 n) = n mod 256 + 256 * (n div 256 mod 256)
      + 65536 * (n div 65536 mod 256) + 16777216 * (n div 16777216)"
    using d3 by (simp add: un_le32_def le32_def)
  also have "\<dots> = n" using e1 e2 e3 by linarith
  finally show ?thesis .
qed

lemma int32_roundtrip: "- 2147483648 \<le> x \<Longrightarrow> x < 2147483648 \<Longrightarrow> int32_of_bits (int32_bits x) = x"
proof (cases "0 \<le> x")
  case True
  assume "x < 2147483648"
  with True show ?thesis by (simp add: int32_of_bits_def int32_bits_def)
next
  case False
  assume lo: "- 2147483648 \<le> x"
  have "x = 4294967296 * (- 1) + (x + 4294967296)" by simp
  moreover have "0 \<le> x + 4294967296" using lo by simp
  moreover have "x + 4294967296 < 4294967296" using False by simp
  ultimately have m: "x mod 4294967296 = x + 4294967296" by (rule int_mod_pos_eq)
  show ?thesis using False lo by (simp add: int32_of_bits_def int32_bits_def m)
qed

lemma int32_bits_bound: "int32_bits x < 4294967296"
  by (simp add: int32_bits_def nat_less_iff)

lemma c_str_zero_fill: "NUL \<notin> set s \<Longrightarrow> length s < n \<Longrightarrow> c_str (zero_fill n s) = s"
proof -
  assume s: "NUL \<notin> set s" and n: "length s < n"
  from n obtain k where k: "n - length s = Suc k" by (cases "n - length s") simp_all
  have "takeWhile (\<lambda>c. c \<noteq> NUL) (s @ NUL # replicate k NUL) = s"
    using s by (induction s) auto
  then show ?thesis by (simp add: c_str_def zero_fill_def k)
qed

lemma length_zero_fill: "length s \<le> n \<Longrightarrow> length (zero_fill n s) = n"
  by (simp add: zero_fill_def)

lemma length_le32: "length (le32 n) = 4"
  by (simp add: le32_def)

lemma type_code_bound: "type_code ty < 10"
  by (cases ty) simp_all

lemma type_of_code_type_code: "type_of_code (type_code ty) = Some ty"
  by (cases ty) (simp_all add: type_of_code_def)

lemma create_message_frame_sized: "frame_sized (create_message ty s r d n)"
proof -
  have "type_code ty < 4294967296" using type_code_bound [of ty] by simp
  then show ?thesis
    by (simp add: frame_sized_def create_message_def Let_def length_zero_fill
        MAX_NAME_LEN_def DATA_SIZE_def BUFFER_SIZE_def)
qed

lemma length_frame_of: "frame_sized msg \<Longrightarrow> length (frame_of msg) = BUFFER_SIZE"
  by (simp add: frame_sized_def frame_of_def length_le32 MAX_NAME_LEN_def DATA_SIZE_def
      BUFFER_SIZE_def)

lemma message_of_frame_of: "frame_sized msg \<Longrightarrow> message_of_frame (frame_of msg) = msg"
proof -
  assume w: "frame_sized msg"
  then have len: "length (sender_id msg) = 256" "length (recipient_id msg) = 256"
    and ty: "m_type msg < 4294967296"
    and dl: "- 2147483648 \<le> data_length msg" "data_length msg < 2147483648"
    by (simp_all add: frame_sized_def MAX_NAME_LEN_def)
  have "m_type (message_of_frame (frame_of msg)) = m_type msg"
    using ty by (simp add: message_of_frame_def frame_of_def length_le32 un_le32_le32)
  moreover have "sender_id (message_of_frame (frame_of msg)) = sender_id msg"
    using len by (simp add: message_of_frame_def frame_of_def length_le32 MAX_NAME_LEN_def)
  moreover have "recipient_id (message_of_frame (frame_of msg)) = recipient_id msg"
    using len by (simp add: message_of_frame_def frame_of_def length_le32 MAX_NAME_LEN_def)
  moreover have "data_length (message_of_frame (frame_of msg)) = data_length msg"
    using len dl
    by (simp add: message_of_frame_def frame_of_def length_le32 MAX_NAME_LEN_def
        un_le32_le32 int32_bits_bound int32_roundtrip)
  moreover have "data (message_of_frame (frame_of msg)) = data msg"
    using len by (simp add: message_of_frame_def frame_of_def length_le32 MAX_NAME_LEN_def)
  ultimately show ?thesis by simp
qed

section \<open>Properties of the registry search\<close>

lemma find_node_from_shift:
  "find_node_from i ns w = map_option (\<lambda>k. k + i) (find_node_from 0 ns w)"
proof (induction ns arbitrary: i)
  case Nil
  show ?case by simp
next
  case (Cons n ns)
  show ?case
    using Cons.IH [of "Suc i"] Cons.IH [of "Suc 0"]
    by (cases "find_node_from 0 ns w") (auto simp: option.map_comp comp_def)
qed

lemma find_node_by_id_Nil: "find_node_by_id [] w = None"
  by (simp add: find_node_by_id_def)

lemma find_node_by_id_Cons:
  "find_node_by_id (n # ns) w =
     (if n_id n = w then Some 0 else map_option Suc (find_node_by_id ns w))"
  using find_node_from_shift [of "Suc 0" ns w] by (simp add: find_node_by_id_def)

lemma find_node_by_id_Some:
  "find_node_by_id ns w = Some k \<Longrightarrow>
     k < length ns \<and> n_id (ns ! k) = w \<and> (\<forall>j < k. n_id (ns ! j) \<noteq> w)"
proof (induction ns arbitrary: k)
  case Nil
  then show ?case by (simp add: find_node_by_id_Nil)
next
  case (Cons n ns)
  show ?case
  proof (cases "n_id n = w")
    case True
    with Cons.prems show ?thesis by (simp add: find_node_by_id_Cons)
  next
    case False
    with Cons.prems obtain k' where k': "find_node_by_id ns w = Some k'" "k = Suc k'"
      by (auto simp: find_node_by_id_Cons)
    from Cons.IH [OF k'(1)] False k'(2) show ?thesis
      by (auto simp: less_Suc_eq_0_disj)
  qed
qed

lemma find_node_by_id_None:
  "find_node_by_id ns w = None \<longleftrightarrow> (\<forall>n \<in> set ns. n_id n \<noteq> w)"
  by (induction ns) (auto simp: find_node_by_id_Nil find_node_by_id_Cons)

lemma find_node_by_id_ids:
  "map n_id ns = map n_id ms \<Longrightarrow> find_node_by_id ns w = find_node_by_id ms w"
proof (induction ns arbitrary: ms)
  case Nil
  then show ?case by simp
next
  case (Cons n ns)
  then obtain m ms' where ms: "ms = m # ms'" by (cases ms) auto
  with Cons.prems have "n_id n = n_id m" "map n_id ns = map n_id ms'" by simp_all
  with Cons.IH [of ms'] ms show ?case by (simp add: find_node_by_id_Cons)
qed

lemma map_n_id_update:
  assumes "n_id y = n_id (ns ! k)"
  shows "map n_id (ns[k := y]) = map n_id ns"
proof (cases "k < length ns")
  case True
  with assms show ?thesis by (simp add: map_update list_update_same_conv)
next
  case False
  then have "ns[k := y] = ns" by (simp add: list_update_beyond)
  then show ?thesis by simp
qed

lemma find_node_by_id_update:
  "n_id y = n_id (ns ! k) \<Longrightarrow> find_node_by_id (ns[k := y]) w = find_node_by_id ns w"
  using find_node_by_id_ids [OF map_n_id_update] by simp

lemma find_node_by_id_append:
  "find_node_by_id (ns @ ms) w =
     (case find_node_by_id ns w of
        Some k \<Rightarrow> Some k
      | None \<Rightarrow> map_option (\<lambda>k. k + length ns) (find_node_by_id ms w))"
proof (induction ns)
  case Nil
  show ?case by (simp add: find_node_by_id_Nil option.map_ident)
next
  case (Cons n ns)
  show ?case
    by (cases "find_node_by_id ns w")
      (simp_all add: find_node_by_id_Cons Cons.IH option.map_comp comp_def)
qed

text \<open>The record that a lookup by id reaches, as a search of the list.\<close>

lemma find_node_by_id_find:
  "map_option ((!) ns) (find_node_by_id ns w) = List.find (\<lambda>n. n_id n = w) ns"
proof (induction ns)
  case Nil
  show ?case by (simp add: find_node_by_id_Nil)
next
  case (Cons n ns)
  show ?case using Cons.IH
    by (cases "find_node_by_id ns w") (auto simp: find_node_by_id_Cons)
qed

lemma find_remove_other:
  "i < length ns \<Longrightarrow> \<not> P (ns ! i) \<Longrightarrow>
     List.find P (take i ns @ drop (Suc i) ns) = List.find P ns"
proof (induction ns arbitrary: i)
  case Nil
  then show ?case by simp
next
  case (Cons n ns)
  show ?case
  proof (cases i)
    case 0
    with Cons.prems show ?thesis by simp
  next
    case (Suc j)
    with Cons.prems have "j < length ns" "\<not> P (ns ! j)" by simp_all
    from Cons.IH [OF this] Suc show ?thesis by simp
  qed
qed

lemma find_update_same:
  "k < length ns \<Longrightarrow> P y = P (ns ! k) \<Longrightarrow>
     List.find P (ns[k := y]) =
       (if P y \<and> (\<forall>j < k. \<not> P (ns ! j)) then Some y else List.find P ns)"
proof (induction ns arbitrary: k)
  case Nil
  then show ?case by simp
next
  case (Cons n ns)
  show ?case
  proof (cases k)
    case 0
    with Cons.prems show ?thesis by auto
  next
    case (Suc j)
    with Cons.prems have j: "j < length ns" "P y = P (ns ! j)" by simp_all
    show ?thesis
    proof (cases "P n")
      case True
      with Suc show ?thesis by auto
    next
      case False
      have "(\<forall>i < Suc j. \<not> P ((n # ns) ! i)) = (\<forall>i < j. \<not> P (ns ! i))"
        using False by (auto simp: less_Suc_eq_0_disj)
      with Cons.IH [OF j] False Suc show ?thesis by auto
    qed
  qed
qed

section \<open>Properties of the ledger search\<close>

lemma find_container_from_shift:
  "find_container_from i cs w = map_option (\<lambda>k. k + i) (find_container_from 0 cs w)"
proof (induction cs arbitrary: i)
  case Nil
  show ?case by simp
next
  case (Cons c cs)
  show ?case
    using Cons.IH [of "Suc i"] Cons.IH [of "Suc 0"]
    by (cases "find_container_from 0 cs w") (auto simp: option.map_comp comp_def)
qed

lemma find_container_Nil: "find_container [] w = None"
  by (simp add: find_container_def)

lemma find_container_Cons:
  "find_container (c # cs) w =
     (if c_id c = w then Some 0 else map_option Suc (find_container cs w))"
  using find_container_from_shift [of "Suc 0" cs w] by (simp add: find_container_def)

lemma find_container_None:
  "find_container cs w = None \<longleftrightarrow> (\<forall>c \<in> set cs. c_id c \<noteq> w)"
  by (induction cs) (auto simp: find_container_Nil find_container_Cons)

lemma find_container_Some:
  "find_container cs w = Some k \<Longrightarrow>
     k < length cs \<and> c_id (cs ! k) = w \<and> (\<forall>j < k. c_id (cs ! j) \<noteq> w)"
proof (induction cs arbitrary: k)
  case Nil
  then show ?case by (simp add: find_container_Nil)
next
  case (Cons c cs)
  show ?case
  proof (cases "c_id c = w")
    case True
    with Cons.prems show ?thesis by (simp add: find_container_Cons)
  next
    case False
    with Cons.prems obtain k' where k': "find_container cs w = Some k'" "k = Suc k'"
      by (auto simp: find_container_Cons)
    from Cons.IH [OF k'(1)] False k'(2) show ?thesis
      by (auto simp: less_Suc_eq_0_disj)
  qed
qed

section \<open>Fields of a created message\<close>

lemma m_type_create: "type_of_code (m_type (create_message ty s r d n)) = Some ty"
  by (simp add: create_message_def Let_def type_of_code_type_code)

lemma sender_create:
  "NUL \<notin> set s \<Longrightarrow> length s < MAX_NAME_LEN \<Longrightarrow>
     c_str (sender_id (create_message ty s r d n)) = s"
  by (simp add: create_message_def Let_def c_str_zero_fill)

lemma data_length_create:
  "data_length (create_message ty s r d n) =
     (if n > 0 then (if n < int DATA_SIZE then n else int DATA_SIZE) else 0)"
  by (simp add: create_message_def Let_def)

lemma data_create:
  assumes "0 < m" "m = int (length p)" "length p \<le> DATA_SIZE"
  shows "data (create_message ty a b p m) = p @ replicate (DATA_SIZE - length p) NUL"
  using assms by (simp add: create_message_def Let_def zero_fill_def)

lemma c_str_zero_fill_append:
  assumes "NUL \<notin> set s" "length s < n"
  shows "c_str (zero_fill n s @ rest) = s"
proof -
  from assms(2) obtain k where k: "n - length s = Suc k" by (cases "n - length s") simp_all
  have "takeWhile (\<lambda>c. c \<noteq> NUL) (s @ NUL # (replicate k NUL @ rest)) = s"
    using assms(1) by (induction s) auto
  then show ?thesis by (simp add: c_str_def zero_fill_def k)
qed

lemma c_str_Cons: "c_str (c # cs) = (if c = CHR 0x00 then [] else c # c_str cs)"
  by (simp add: c_str_def NUL_def)

lemma c_str_zeros: "c_str (replicate k (CHR 0x00)) = []"
  by (cases k) (simp_all add: c_str_def NUL_def)

lemma length_le64: "length (le64 n) = 8"
  by (simp add: le64_def length_le32)

lemma un_le64_le64: "n < 18446744073709551616 \<Longrightarrow> un_le64 (le64 n) = n"
proof -
  assume n: "n < 18446744073709551616"
  have lo: "n mod 4294967296 < 4294967296" by simp
  have hi: "n div 4294967296 < 4294967296" using n by simp
  have "un_le64 (le64 n) = n mod 4294967296 + 4294967296 * (n div 4294967296)"
    using lo hi by (simp add: un_le64_def le64_def length_le32 un_le32_le32)
  then show ?thesis by simp
qed

lemmas frame_simps = m_type_create sender_create data_length_create data_create
  c_str_zero_fill_append c_str_Cons c_str_zeros length_le32 length_le64 length_zero_fill
  un_le32_le32 un_le64_le64

lemmas model_defs = init_coord_def handle_message_def register_node_def unregister_node_def
  client_cleanup_def find_node_by_id_def find_container_def send_message_def
  deploy_container_def deploy_container_auto_def start_container_def stop_container_def
  delete_container_def get_container_status_def size_t_of_int_def Let_def
  MAX_NAME_LEN_def MAX_NODES_def MAX_CONTAINERS_def DATA_SIZE_def BUFFER_SIZE_def NUL_def

lemmas scenario_defs = sample_env_def register_frame_def heartbeat_frame_def status_frame_def
  resources_lp64_def double_of_bits_def state_of_code_def scan_text_def decimal_def blank_def
  int32_of_bits_def
  deploy_run_def closed_run_def unregistered_run_def status_run_def stale_run_def
  running_report_def
  unheard_run_def

section \<open>The connection handler never writes the ledger\<close>

lemma deployed_send_message:
  "deployed_containers (snd (send_message env fd msg s)) = deployed_containers s"
  by (simp add: send_message_def)

lemma deployed_register_node:
  "deployed_containers (snd (register_node now w h ip p s)) = deployed_containers s"
  by (simp add: register_node_def split: option.splits)

lemma deployed_handle_message:
  "deployed_containers (snd (handle_message env now fd msg (nid, s))) = deployed_containers s"
proof (cases "type_of_code (m_type msg)")
  case None
  then show ?thesis by (simp add: handle_message_def)
next
  case (Some ty)
  show ?thesis
  proof (cases ty)
    case MSG_REGISTER_NODE
    obtain h ip p where sc: "scan_registration env (data msg) = (h, ip, p)"
      by (cases "scan_registration env (data msg)")
    obtain r s1 where rg: "register_node now (c_str (sender_id msg)) h ip p s = (r, s1)"
      by (cases "register_node now (c_str (sender_id msg)) h ip p s")
    have d1: "deployed_containers s1 = deployed_containers s"
      using deployed_register_node [of now "c_str (sender_id msg)" h ip p s] rg by simp
    show ?thesis using Some MSG_REGISTER_NODE sc rg d1
      by (cases r) (simp_all add: handle_message_def Let_def deployed_send_message
          split: option.splits)
  next
    case MSG_NODE_HEARTBEAT
    with Some show ?thesis
      by (simp add: handle_message_def Let_def split: option.splits)
  next
    case MSG_CONTAINER_STATUS
    with Some show ?thesis
      by (simp add: handle_message_def Let_def split: option.splits)
  qed (use Some in \<open>simp_all add: handle_message_def\<close>)
qed

lemma deployed_client_loop:
  "deployed_containers (snd (client_loop env fd blocks (nid, s))) = deployed_containers s"
proof (induction blocks arbitrary: nid s)
  case Nil
  show ?case by simp
next
  case (Cons b blocks)
  obtain now received where b: "b = (now, received)" by (cases b)
  show ?case
  proof (cases "receive_message fd received")
    case None
    with b show ?thesis by simp
  next
    case (Some msg)
    obtain nid' s' where h: "handle_message env now fd msg (nid, s) = (nid', s')"
      by (cases "handle_message env now fd msg (nid, s)")
    have "deployed_containers s' = deployed_containers s"
      using deployed_handle_message [of env now fd msg nid s] h by simp
    with Cons.IH [of nid' s'] b Some h show ?thesis by simp
  qed
qed

lemma deployed_client_cleanup:
  "deployed_containers (client_cleanup nid s) = deployed_containers s"
  by (simp add: client_cleanup_def split: option.splits)

section \<open>Every action edits the registry\<close>

lemma register_node_connected:
  assumes "register_node now w h ip p s = (None, s1)"
    and "find_node_by_id (nodes s1) w = Some k"
  shows "n_state (nodes s1 ! k) = NODE_CONNECTED"
proof (cases "find_node_by_id (nodes s) w")
  case None
  with assms(1) obtain y where s1: "nodes s1 = nodes s @ [y]"
    and y: "n_state y = NODE_CONNECTED" "n_id y = w"
    by (auto simp: register_node_def split: if_splits)
  from assms(2) None y(2) have "k = length (nodes s)"
    by (simp add: s1 find_node_by_id_append find_node_by_id_Cons)
  with y(1) show ?thesis by (simp add: s1)
next
  case (Some i)
  from find_node_by_id_Some [OF Some] have i: "i < length (nodes s)" by simp
  from assms(1) Some have s1: "nodes s1 = (nodes s)[i := (nodes s ! i)
     \<lparr>hostname := h, ip_address := ip, port := p, n_state := NODE_CONNECTED,
      last_heartbeat := now\<rparr>]"
    by (auto simp: register_node_def split: if_splits)
  from assms(2) Some have "k = i" by (simp add: s1 find_node_by_id_update)
  with i show ?thesis by (simp add: s1)
qed

lemma register_node_edit:
  "registry_edit env a (nodes s) (nodes (snd (register_node now w h ip p s)))"
proof (cases "length (nodes s) \<ge> MAX_NODES")
  case True
  then show ?thesis by (simp add: register_node_def edit_none)
next
  case False
  show ?thesis
  proof (cases "find_node_by_id (nodes s) w")
    case None
    with False show ?thesis by (simp add: register_node_def edit_new)
  next
    case (Some i)
    from find_node_by_id_Some [OF Some] have i: "i < length (nodes s)" by simp
    have "record_change env a (nodes s ! i) ((nodes s ! i)
       \<lparr>hostname := h, ip_address := ip, port := p, n_state := NODE_CONNECTED,
        last_heartbeat := now\<rparr>)"
      by (simp add: record_change_def)
    from edit_record [OF i this] False Some show ?thesis by (simp add: register_node_def)
  qed
qed

lemma nodes_send_message: "nodes (snd (send_message env fd msg s)) = nodes s"
  by (simp add: send_message_def)

lemma handle_message_edit:
  "registry_edit env (Frame fd nid msg) (nodes s)
     (nodes (snd (handle_message env now fd msg (nid, s))))"
proof (cases "type_of_code (m_type msg)")
  case None
  then show ?thesis by (simp add: handle_message_def edit_none)
next
  case (Some ty)
  let ?a = "Frame fd nid msg"
  show ?thesis
  proof (cases ty)
    case MSG_REGISTER_NODE
    obtain h ip p where sc: "scan_registration env (data msg) = (h, ip, p)"
      by (cases "scan_registration env (data msg)")
    let ?w = "c_str (sender_id msg)"
    obtain r s1 where rg: "register_node now ?w h ip p s = (r, s1)"
      by (cases "register_node now ?w h ip p s")
    have e1: "registry_edit env ?a (nodes s) (nodes s1)"
      using register_node_edit [of env ?a s now ?w h ip p] rg by simp
    show ?thesis
    proof (cases r)
      case (Some e)
      with \<open>type_of_code (m_type msg) = Some ty\<close> MSG_REGISTER_NODE sc rg e1 show ?thesis
        by (simp add: handle_message_def)
    next
      case None
      show ?thesis
      proof (cases "find_node_by_id (nodes s1) ?w")
        case nf: None
        with None \<open>type_of_code (m_type msg) = Some ty\<close> MSG_REGISTER_NODE sc rg e1
        show ?thesis by (simp add: handle_message_def Let_def nodes_send_message)
      next
        case (Some k)
        from find_node_by_id_Some [OF Some] have k: "k < length (nodes s1)" by simp
        from rg None have "register_node now ?w h ip p s = (None, s1)" by simp
        from register_node_connected [OF this Some]
        have "record_change env ?a (nodes s1 ! k) ((nodes s1 ! k)\<lparr>socket_fd := fd\<rparr>)"
          by (simp add: record_change_def)
        from edit_then [OF e1 edit_record [OF k this]]
        show ?thesis
          using None Some \<open>type_of_code (m_type msg) = Some ty\<close> MSG_REGISTER_NODE sc rg
          by (simp add: handle_message_def Let_def nodes_send_message)
      qed
    qed
  next
    case MSG_NODE_HEARTBEAT
    show ?thesis
    proof (cases "find_node_by_id (nodes s) (c_str (sender_id msg))")
      case None
      with Some MSG_NODE_HEARTBEAT show ?thesis by (simp add: handle_message_def edit_none)
    next
      case (Some k)
      from find_node_by_id_Some [OF Some]
      have k: "k < length (nodes s)" "n_id (nodes s ! k) = c_str (sender_id msg)" by simp_all
      let ?node = "(nodes s ! k)\<lparr>last_heartbeat := now, n_state := NODE_CONNECTED\<rparr>"
      let ?node' = "if size_t_of_int (data_length msg) \<ge> sizeof_resource_info_t env
                    then ?node\<lparr>resources := resources_of env (data msg)\<rparr> else ?node"
      have "record_change env ?a (nodes s ! k) ?node'"
        using k(2) \<open>type_of_code (m_type msg) = Some ty\<close> MSG_NODE_HEARTBEAT
        by (simp add: record_change_def)
      from edit_record [OF k(1) this] Some \<open>type_of_code (m_type msg) = Some ty\<close>
        MSG_NODE_HEARTBEAT
      show ?thesis by (simp add: handle_message_def Let_def)
    qed
  next
    case MSG_CONTAINER_STATUS
    show ?thesis
    proof (cases "find_node_by_id (nodes s) (c_str (sender_id msg))")
      case None
      with Some MSG_CONTAINER_STATUS show ?thesis
        by (simp add: handle_message_def edit_none)
    next
      case (Some k)
      from find_node_by_id_Some [OF Some] have k: "k < length (nodes s)" by simp
      have "record_change env ?a (nodes s ! k) ((nodes s ! k)
         \<lparr>containers := set_first_state (update_id env (data msg))
            (update_state env (data msg)) (containers (nodes s ! k))\<rparr>)"
        by (simp add: record_change_def)
      from edit_record [OF k this] Some \<open>type_of_code (m_type msg) = Some ty\<close>
        MSG_CONTAINER_STATUS
      show ?thesis by (simp add: handle_message_def edit_none)
    qed
  qed (use Some in \<open>simp_all add: handle_message_def edit_none\<close>)
qed

lemma client_cleanup_edit:
  "registry_edit env (Closed nid) (nodes s) (nodes (client_cleanup nid s))"
proof (cases "find_node_by_id (nodes s) nid")
  case None
  then show ?thesis by (simp add: client_cleanup_def edit_none)
next
  case (Some k)
  from find_node_by_id_Some [OF Some]
  have k: "k < length (nodes s)" "n_id (nodes s ! k) = nid" by simp_all
  have "record_change env (Closed nid) (nodes s ! k)
     ((nodes s ! k)\<lparr>n_state := NODE_DISCONNECTED, socket_fd := - 1\<rparr>)"
    using k(2) by (simp add: record_change_def)
  from edit_record [OF k(1) this] Some show ?thesis
    by (simp add: client_cleanup_def edit_none)
qed

lemma deploy_container_edit:
  "registry_edit env a (nodes s) (nodes (snd (deploy_container env' now w cfg s)))"
proof (cases "find_node_by_id (nodes s) w")
  case None
  then show ?thesis by (simp add: deploy_container_def edit_none)
next
  case (Some k)
  from find_node_by_id_Some [OF Some] have k: "k < length (nodes s)" by simp
  have "record_change env a (nodes s ! k) ((nodes s ! k)\<lparr>containers := cs\<rparr>)" for cs
    by (simp add: record_change_def)
  from edit_record [OF k this] Some show ?thesis
    by (simp add: deploy_container_def send_message_def Let_def edit_none)
qed

lemma deploy_container_auto_edit:
  "registry_edit env a (nodes s) (nodes (snd (deploy_container_auto env' now cfg s)))"
  by (simp add: deploy_container_auto_def deploy_container_edit edit_none
      split: option.splits)

lemma start_container_nodes: "nodes (snd (start_container env cid s)) = nodes s"
  by (simp add: start_container_def send_message_def Let_def split: option.splits)

lemma stop_container_nodes: "nodes (snd (stop_container env cid s)) = nodes s"
  by (simp add: stop_container_def send_message_def Let_def split: option.splits)

lemma delete_container_edit:
  "registry_edit env a (nodes s) (nodes (snd (delete_container env' cid s)))"
proof (cases "find_container (deployed_containers s) cid")
  case None
  then show ?thesis by (simp add: delete_container_def edit_none)
next
  case (Some i)
  show ?thesis
  proof (cases "find_node_by_id (nodes s) (c_node_id (deployed_containers s ! i))")
    case None
    with Some show ?thesis by (simp add: delete_container_def Let_def edit_none)
  next
    case (Some k)
    from find_node_by_id_Some [OF Some] have k: "k < length (nodes s)" by simp
    have "record_change env a (nodes s ! k) ((nodes s ! k)\<lparr>containers := cs\<rparr>)" for cs
      by (simp add: record_change_def)
    from edit_record [OF k this] Some \<open>find_container (deployed_containers s) cid = Some i\<close>
    show ?thesis by (simp add: delete_container_def send_message_def Let_def)
  qed
qed

lemma unregister_node_edit:
  "registry_edit env (Unregister w) (nodes s) (nodes (snd (unregister_node w s)))"
proof (cases "find_node_by_id (nodes s) w")
  case None
  then show ?thesis by (simp add: unregister_node_def edit_none)
next
  case (Some i)
  from find_node_by_id_Some [OF Some]
  have i: "i < length (nodes s)" "n_id (nodes s ! i) = w" by simp_all
  from edit_remove [of i "nodes s" "Unregister w" env] i Some show ?thesis
    by (simp add: unregister_node_def)
qed

lemma step_edit: "registry_edit env a (nodes s) (nodes (step env now a s))"
proof (cases a)
  case (Frame fd nid msg)
  then show ?thesis by (simp add: handle_message_edit)
next
  case (Closed nid)
  then show ?thesis by (simp add: client_cleanup_edit)
next
  case (Deploy w cfg)
  then show ?thesis by (simp add: deploy_container_edit)
next
  case (DeployAuto cfg)
  then show ?thesis by (simp add: deploy_container_auto_edit)
next
  case (Start cid)
  then show ?thesis by (simp add: start_container_nodes edit_none)
next
  case (Stop cid)
  then show ?thesis by (simp add: stop_container_nodes edit_none)
next
  case (Delete cid)
  then show ?thesis by (simp add: delete_container_edit)
next
  case (Unregister w)
  then show ?thesis by (simp add: unregister_node_edit)
qed

section \<open>Invariants of registry edits\<close>

lemma in_set_updateD: "x \<in> set (xs[k := y]) \<Longrightarrow> x = y \<or> x \<in> set xs"
  using set_update_subset_insert [of xs k y] by auto

lemma in_set_removeD: "x \<in> set (take i xs @ drop (Suc i) xs) \<Longrightarrow> x \<in> set xs"
  by (auto dest: in_set_takeD in_set_dropD)

lemma edit_detached:
  "registry_edit env a ns ns' \<Longrightarrow>
     (\<forall>n \<in> set ns. n_state n = NODE_CONNECTED \<or> socket_fd n < 0) \<Longrightarrow>
     (\<forall>n \<in> set ns'. n_state n = NODE_CONNECTED \<or> socket_fd n < 0)"
proof (induction rule: registry_edit.induct)
  case (edit_none ns)
  then show ?case .
next
  case (edit_record k ns y)
  from edit_record.hyps(1) have "ns ! k \<in> set ns" by simp
  with edit_record.prems have old: "n_state (ns ! k) = NODE_CONNECTED \<or> socket_fd (ns ! k) < 0"
    by blast
  from edit_record.hyps(2) old
  have "n_state y = NODE_CONNECTED \<or> socket_fd y < 0"
    by (auto simp: record_change_def)
  with edit_record.prems show ?case by (auto dest: in_set_updateD)
next
  case (edit_new y ns)
  then show ?case by auto
next
  case (edit_remove i ns)
  show ?case
  proof
    fix n
    assume "n \<in> set (take i ns @ drop (Suc i) ns)"
    then have "n \<in> set ns" by (rule in_set_removeD)
    with edit_remove.prems show "n_state n = NODE_CONNECTED \<or> socket_fd n < 0" by blast
  qed
next
  case (edit_then ns ms ls)
  then show ?case by blast
qed

lemma edit_unheard:
  "registry_edit env a ns ns' \<Longrightarrow> \<not> resource_heartbeat env w a \<Longrightarrow>
     (\<forall>n \<in> set ns. n_id n = w \<longrightarrow> max_containers (resources n) = 0) \<Longrightarrow>
     (\<forall>n \<in> set ns'. n_id n = w \<longrightarrow> max_containers (resources n) = 0)"
proof (induction rule: registry_edit.induct)
  case (edit_none ns)
  then show ?case by simp
next
  case (edit_record k ns y)
  from edit_record.hyps(1) have mem: "ns ! k \<in> set ns" by simp
  have "n_id y = w \<longrightarrow> max_containers (resources y) = 0"
  proof
    assume w: "n_id y = w"
    with edit_record.hyps(2) have id: "n_id (ns ! k) = w" by (simp add: record_change_def)
    with edit_record.hyps(2) edit_record.prems(1) have "resources y = resources (ns ! k)"
      by (auto simp: record_change_def)
    with id mem edit_record.prems(2) show "max_containers (resources y) = 0" by auto
  qed
  with edit_record.prems(2) show ?case by (auto dest: in_set_updateD)
next
  case (edit_new y ns)
  then show ?case by auto
next
  case (edit_remove i ns)
  show ?case
  proof
    fix n
    assume "n \<in> set (take i ns @ drop (Suc i) ns)"
    then have "n \<in> set ns" by (rule in_set_removeD)
    with edit_remove.prems(2) show "n_id n = w \<longrightarrow> max_containers (resources n) = 0"
      by blast
  qed
next
  case (edit_then ns ms ls)
  then show ?case by blast
qed

lemma find_first:
  "k < length ns \<Longrightarrow> P (ns ! k) \<Longrightarrow> \<forall>j < k. \<not> P (ns ! j) \<Longrightarrow> List.find P ns = Some (ns ! k)"
proof (induction ns arbitrary: k)
  case Nil
  then show ?case by simp
next
  case (Cons n ns)
  show ?case
  proof (cases k)
    case 0
    with Cons.prems show ?thesis by simp
  next
    case (Suc j)
    from Cons.prems(3) Suc have "\<not> P n" by auto
    moreover have "\<forall>i < j. \<not> P (ns ! i)"
      using Cons.prems(3) Suc by (auto simp: less_Suc_eq_0_disj)
    ultimately show ?thesis using Cons.IH [of j] Cons.prems(1,2) Suc by simp
  qed
qed

lemma find_append_left:
  "List.find P xs = Some x \<Longrightarrow> List.find P (xs @ ys) = Some x"
  by (induction xs) (auto split: if_splits)

lemma edit_keeps_connected:
  "registry_edit env a ns ns' \<Longrightarrow> a \<noteq> Closed w \<Longrightarrow> a \<noteq> Unregister w \<Longrightarrow>
     map_option n_state (List.find (\<lambda>n. n_id n = w) ns) = Some NODE_CONNECTED \<Longrightarrow>
     map_option n_state (List.find (\<lambda>n. n_id n = w) ns') = Some NODE_CONNECTED"
proof (induction rule: registry_edit.induct)
  case (edit_none ns)
  then show ?case by simp
next
  case (edit_record k ns y)
  let ?P = "\<lambda>n. n_id n = w"
  from edit_record.hyps(2) have same: "?P y = ?P (ns ! k)" by (simp add: record_change_def)
  note upd = find_update_same [of k ns ?P y, OF edit_record.hyps(1) same]
  show ?case
  proof (cases "?P y \<and> (\<forall>j < k. \<not> ?P (ns ! j))")
    case False
    with upd edit_record.prems(3) show ?thesis by simp
  next
    case True
    with same have first: "?P (ns ! k)" "\<forall>j < k. \<not> ?P (ns ! j)" by simp_all
    from find_first [of k ns ?P, OF edit_record.hyps(1) first]
    have "List.find ?P ns = Some (ns ! k)" .
    with edit_record.prems(3) have old: "n_state (ns ! k) = NODE_CONNECTED" by simp
    from first(1) edit_record.prems(1) have "a \<noteq> Closed (n_id (ns ! k))" by simp
    with edit_record.hyps(2) old have "n_state y = NODE_CONNECTED"
      by (auto simp: record_change_def)
    with upd True show ?thesis by simp
  qed
next
  case (edit_new y ns)
  from edit_new.prems(3) obtain x where "List.find (\<lambda>n. n_id n = w) ns = Some x"
    by (cases "List.find (\<lambda>n. n_id n = w) ns") simp_all
  with edit_new.prems(3) show ?case by (simp add: find_append_left)
next
  case (edit_remove i ns)
  from edit_remove.hyps(2) edit_remove.prems(2) have "\<not> n_id (ns ! i) = w" by auto
  from find_remove_other [of i ns "\<lambda>n. n_id n = w", OF edit_remove.hyps(1) this]
    edit_remove.prems(3)
  show ?case by simp
next
  case (edit_then ns ms ls)
  then show ?case by blast
qed

lemma worker_state_find:
  "worker_state s w = map_option n_state (List.find (\<lambda>n. n_id n = w) (nodes s))"
  using find_node_by_id_find [of "nodes s" w, symmetric]
  by (simp add: worker_state_def option.map_comp comp_def)

lemma run_detached:
  "(\<forall>n \<in> set (nodes s). n_state n = NODE_CONNECTED \<or> socket_fd n < 0) \<Longrightarrow>
     (\<forall>n \<in> set (nodes (run tr s)). n_state n = NODE_CONNECTED \<or> socket_fd n < 0)"
proof (induction tr arbitrary: s)
  case Nil
  then show ?case by simp
next
  case (Cons x tr)
  obtain env now a where x: "x = (env, now, a)" by (cases x)
  from edit_detached [OF step_edit [of env a s now] Cons.prems]
  have "\<forall>n \<in> set (nodes (step env now a s)). n_state n = NODE_CONNECTED \<or> socket_fd n < 0" .
  from Cons.IH [OF this] x show ?case by simp
qed

lemma run_unheard:
  "list_all (\<lambda>(env, now, a). \<not> resource_heartbeat env w a) tr \<Longrightarrow>
     (\<forall>n \<in> set (nodes s). n_id n = w \<longrightarrow> max_containers (resources n) = 0) \<Longrightarrow>
     (\<forall>n \<in> set (nodes (run tr s)). n_id n = w \<longrightarrow> max_containers (resources n) = 0)"
proof (induction tr arbitrary: s)
  case Nil
  then show ?case by simp
next
  case (Cons x tr)
  obtain env now a where x: "x = (env, now, a)" by (cases x)
  with Cons.prems(1) have nh: "\<not> resource_heartbeat env w a"
    and rest: "list_all (\<lambda>(env, now, a). \<not> resource_heartbeat env w a) tr" by simp_all
  from edit_unheard [OF step_edit [of env a s now] nh Cons.prems(2)]
  have "\<forall>n \<in> set (nodes (step env now a s)). n_id n = w \<longrightarrow> max_containers (resources n) = 0" .
  from Cons.IH [OF rest this] x show ?case by simp
qed

section \<open>Filling the ledger\<close>

lemma run_append: "run (xs @ ys) s = run ys (run xs s)"
  by (induction xs arbitrary: s) auto

lemma deploy_records:
  assumes "nodes s = [n]" and "n_id n = ''w1''" and "n_state n = NODE_CONNECTED"
    and "socket_fd n = 5"
    and "length (deployed_containers s) + length tags \<le> MAX_CONTAINERS"
    and "length (containers n) + length tags \<le> MAX_CONTAINERS"
  shows "nodes (run (fill_run tags) s)
           = [n\<lparr>containers := containers n @ map deployed_record tags\<rparr>]
       \<and> deployed_containers (run (fill_run tags) s)
           = deployed_containers s @ map deployed_record tags
       \<and> slot_fds (run (fill_run tags) s) = slot_fds s"
  using assms
proof (induction tags arbitrary: s n)
  case Nil
  then show ?case by (simp add: fill_run_def)
next
  case (Cons i tags)
  let ?s1 = "snd (deploy_container sample_env 92 ''w1'' (sample_config (tag i)) s)"
  let ?n1 = "n\<lparr>containers := containers n @ [deployed_record i]\<rparr>"
  have s1: "nodes ?s1 = [?n1]"
    "deployed_containers ?s1 = deployed_containers s @ [deployed_record i]"
    "slot_fds ?s1 = slot_fds s"
    using Cons.prems
    by (simp_all add: deploy_container_def send_message_def sample_env_def Let_def
        find_node_by_id_Cons container_count_def deployed_record_def sample_container_def
        sample_config_def tag_def MAX_NAME_LEN_def)
  have "nodes (run (fill_run tags) ?s1)
           = [?n1\<lparr>containers := containers ?n1 @ map deployed_record tags\<rparr>]
       \<and> deployed_containers (run (fill_run tags) ?s1)
           = deployed_containers ?s1 @ map deployed_record tags
       \<and> slot_fds (run (fill_run tags) ?s1) = slot_fds ?s1"
    using Cons.prems by (intro Cons.IH [of ?s1 ?n1]) (simp_all add: s1)
  then show ?case by (simp add: s1 fill_run_def)
qed

lemma length_full_ledger: "length full_ledger = MAX_CONTAINERS"
  by (simp add: full_ledger_def MAX_CONTAINERS_def)

lemma full_ledger_run_state:
  "nodes (run full_ledger_run init_coord)
     = [(sample_worker ''w1'' 5)\<lparr>last_heartbeat := 91, containers := full_ledger\<rparr>]
   \<and> deployed_containers (run full_ledger_run init_coord) = full_ledger"
proof -
  let ?s0 = "run [(sample_env, 90, Frame 5 [] (register_frame ''w1'')),
      (sample_env, 91, Frame 5 ''w1'' (heartbeat_frame ''w1''))] init_coord"
  have n: "nodes ?s0 = [(sample_worker ''w1'' 5)\<lparr>last_heartbeat := 91\<rparr>]"
    and d: "deployed_containers ?s0 = []"
    by (simp_all add: model_defs scenario_defs frame_simps sample_defs)
  from deploy_records [of ?s0 "(sample_worker ''w1'' 5)\<lparr>last_heartbeat := 91\<rparr>" "[0..<1024]"] n d
  show ?thesis
    by (simp add: full_ledger_run_def full_ledger_def run_append sample_worker_def
        MAX_CONTAINERS_def)
qed

lemma detached_full_run_state:
  "nodes (run detached_full_run init_coord)
     = [(sample_worker ''w1'' (- 1))\<lparr>last_heartbeat := 94, containers := full_ledger\<rparr>]
   \<and> deployed_containers (run detached_full_run init_coord) = full_ledger"
  using full_ledger_run_state
  by (simp add: detached_full_run_def run_append model_defs sample_env_def
      heartbeat_frame_def resources_lp64_def double_of_bits_def int32_of_bits_def
      frame_simps sample_defs)

lemma full_ledger_untracked: "find_container full_ledger ''w1_webapp'' = None"
  unfolding find_container_None
  by (auto simp: full_ledger_def deployed_record_def sample_container_def tag_def)

section \<open>Placement claims\<close>

text \<open>
  Claim C1. For every container spec, every registry and every time, the worker that
  \<open>find_best_node\<close> returns is in the registry, is \<open>NODE_CONNECTED\<close>, has a heartbeat at
  most 30 seconds old and has \<open>container_count < max_containers\<close>; and when no
  registered worker satisfies all three, \<open>find_best_node\<close> returns \<open>NULL\<close>.
\<close>

theorem find_best_node_eligible:
  "(\<forall>k. find_best_node env t ns cfg = Some k \<longrightarrow>
        k < length ns \<and> n_state (ns ! k) = NODE_CONNECTED
        \<and> t - last_heartbeat (ns ! k) \<le> 30
        \<and> container_count (ns ! k) < max_containers (resources (ns ! k)))
   \<and> ((\<forall>n \<in> set ns. \<not> (n_state n = NODE_CONNECTED \<and> t - last_heartbeat n \<le> 30
                          \<and> container_count n < max_containers (resources n)))
        \<longrightarrow> find_best_node env t ns cfg = None)"
proof (intro conjI allI impI)
  fix k
  assume sel: "find_best_node env t ns cfg = Some k"
  from find_best_node_Some [OF sel] have k: "k < length ns" "\<not> skipped t (ns ! k)"
    by simp_all
  from k(1) show "k < length ns" .
  from k(2) show "n_state (ns ! k) = NODE_CONNECTED" by (simp add: skipped_def)
  from k(2) show "t - last_heartbeat (ns ! k) \<le> 30" by (simp add: skipped_def)
  from k(2) show "container_count (ns ! k) < max_containers (resources (ns ! k))"
    by (simp add: skipped_def)
next
  assume "\<forall>n \<in> set ns. \<not> (n_state n = NODE_CONNECTED \<and> t - last_heartbeat n \<le> 30
                          \<and> container_count n < max_containers (resources n))"
  then have "\<forall>n \<in> set ns. skipped t n" by (auto simp: skipped_def)
  then show "find_best_node env t ns cfg = None" by (rule find_best_node_all_skipped)
qed

theorem find_best_node_eligible_witness:
  "find_best_node sample_env 100 [saturated_worker, sample_worker ''w2'' 6]
       (sample_config ''web'') = Some 1
   \<and> n_state ([saturated_worker, sample_worker ''w2'' 6] ! 1) = NODE_CONNECTED
   \<and> 100 - last_heartbeat ([saturated_worker, sample_worker ''w2'' 6] ! 1) \<le> 30
   \<and> container_count ([saturated_worker, sample_worker ''w2'' 6] ! 1)
       < max_containers (resources ([saturated_worker, sample_worker ''w2'' 6] ! 1))
   \<and> find_best_node sample_env 100 [saturated_worker] (sample_config ''web'') = None"
proof -
  have sel: "find_best_node sample_env 100 [saturated_worker, sample_worker ''w2'' 6]
      (sample_config ''web'') = Some 1"
    by (simp add: placement_defs sample_defs sample_env_def)
  have none: "\<forall>n \<in> set [saturated_worker].
      \<not> (n_state n = NODE_CONNECTED \<and> 100 - last_heartbeat n \<le> 30
         \<and> container_count n < max_containers (resources n))"
    by (simp add: placement_defs sample_defs)
  from find_best_node_eligible
    [of sample_env 100 "[saturated_worker, sample_worker ''w2'' 6]" "sample_config ''web''"] sel
    find_best_node_eligible [of sample_env 100 "[saturated_worker]" "sample_config ''web''"] none
  show ?thesis by blast
qed

text \<open>
  Claim C2, as stated: among the eligible workers that attain the maximum score the one
  with the lexicographically smaller id is returned. It fails: the loop replaces the
  best node only on a strictly greater score and never looks at an id, so the first of
  them in the registry array wins. With \<open>w2\<close> registered before \<open>w1\<close>, both eligible
  and with the same resources and container count, hence the same score in any
  arithmetic, \<open>w2\<close> is returned.
\<close>

theorem find_best_node_tie_counterexample:
  "find_best_node sample_env 100 [sample_worker ''w2'' 6, sample_worker ''w1'' 5]
       (sample_config ''web'') = Some 0
   \<and> n_id ([sample_worker ''w2'' 6, sample_worker ''w1'' 5] ! 0) = ''w2''
   \<and> n_id ([sample_worker ''w2'' 6, sample_worker ''w1'' 5] ! 1) = ''w1''
   \<and> \<not> skipped 100 ([sample_worker ''w2'' 6, sample_worker ''w1'' 5] ! 1)
   \<and> resources ([sample_worker ''w2'' 6, sample_worker ''w1'' 5] ! 1)
       = resources ([sample_worker ''w2'' 6, sample_worker ''w1'' 5] ! 0)
   \<and> containers ([sample_worker ''w2'' 6, sample_worker ''w1'' 5] ! 1)
       = containers ([sample_worker ''w2'' 6, sample_worker ''w1'' 5] ! 0)
   \<and> score sample_env ([sample_worker ''w2'' 6, sample_worker ''w1'' 5] ! 1)
       = score sample_env ([sample_worker ''w2'' 6, sample_worker ''w1'' 5] ! 0)
   \<and> ''w1'' < ''w2''"
  by (simp add: placement_defs sample_defs sample_env_def less_char_def)

text \<open>
  Claim C2, amended. Scores are the doubles the code computes, compared as C compares
  them. When \<open>find_best_node\<close> returns a worker, that worker is eligible, its score
  exceeds \<open>-1.0\<close>, no eligible worker's score exceeds its score, and among the eligible
  workers whose score equals its score it is the first in the registry array (the one
  registered earliest), whatever the ids. A worker is returned if and only if the score
  of some eligible worker exceeds \<open>-1.0\<close>, which a score that is not a number never
  does. So in a registry of two eligible workers \<open>w1\<close> and \<open>w2\<close> with identical
  resources and container count, the one registered first is selected when their score
  exceeds \<open>-1.0\<close>, and none is selected otherwise.
\<close>

theorem find_best_node_first_maximum:
  "(\<forall>k. find_best_node env t ns cfg = Some k \<longrightarrow>
        k < length ns \<and> \<not> skipped t (ns ! k)
        \<and> d_gt (score env (ns ! k)) (Fin (- 1))
        \<and> (\<forall>j < length ns. \<not> skipped t (ns ! j)
              \<longrightarrow> \<not> d_gt (score env (ns ! j)) (score env (ns ! k)))
        \<and> (\<forall>j < length ns. \<not> skipped t (ns ! j) \<and> score env (ns ! j) = score env (ns ! k)
              \<longrightarrow> k \<le> j))
   \<and> ((\<exists>j < length ns. \<not> skipped t (ns ! j) \<and> d_gt (score env (ns ! j)) (Fin (- 1)))
        \<longleftrightarrow> find_best_node env t ns cfg \<noteq> None)"
proof (rule conjI)
  show sel: "\<forall>k. find_best_node env t ns cfg = Some k \<longrightarrow>
        k < length ns \<and> \<not> skipped t (ns ! k)
        \<and> d_gt (score env (ns ! k)) (Fin (- 1))
        \<and> (\<forall>j < length ns. \<not> skipped t (ns ! j)
              \<longrightarrow> \<not> d_gt (score env (ns ! j)) (score env (ns ! k)))
        \<and> (\<forall>j < length ns. \<not> skipped t (ns ! j) \<and> score env (ns ! j) = score env (ns ! k)
              \<longrightarrow> k \<le> j)"
  proof (rule allI, rule impI)
    fix k
    assume sel: "find_best_node env t ns cfg = Some k"
    note props = find_best_node_Some [OF sel]
    from props have number: "score env (ns ! k) \<noteq> NaN" by (auto dest: d_gt_numbers)
    have first: "k \<le> j"
      if j: "\<not> skipped t (ns ! j)" "score env (ns ! j) = score env (ns ! k)" for j
    proof (rule ccontr)
      assume "\<not> k \<le> j"
      then have "j < k" by simp
      moreover from props have "\<forall>j < k. \<not> skipped t (ns ! j) \<and> score env (ns ! j) \<noteq> NaN
          \<longrightarrow> d_gt (score env (ns ! k)) (score env (ns ! j))" by simp
      moreover have "score env (ns ! j) \<noteq> NaN" using j(2) number by simp
      ultimately have "d_gt (score env (ns ! k)) (score env (ns ! j))"
        using j(1) by blast
      with j(2) show False by (simp add: d_gt_irrefl)
    qed
    from props first
    show "k < length ns \<and> \<not> skipped t (ns ! k)
        \<and> d_gt (score env (ns ! k)) (Fin (- 1))
        \<and> (\<forall>j < length ns. \<not> skipped t (ns ! j)
              \<longrightarrow> \<not> d_gt (score env (ns ! j)) (score env (ns ! k)))
        \<and> (\<forall>j < length ns. \<not> skipped t (ns ! j) \<and> score env (ns ! j) = score env (ns ! k)
              \<longrightarrow> k \<le> j)"
      by simp
  qed
  show "(\<exists>j < length ns. \<not> skipped t (ns ! j) \<and> d_gt (score env (ns ! j)) (Fin (- 1)))
        \<longleftrightarrow> find_best_node env t ns cfg \<noteq> None"
  proof
    assume ex: "\<exists>j < length ns. \<not> skipped t (ns ! j) \<and> d_gt (score env (ns ! j)) (Fin (- 1))"
    show "find_best_node env t ns cfg \<noteq> None"
    proof
      assume none: "find_best_node env t ns cfg = None"
      from ex obtain j where j: "j < length ns" "\<not> skipped t (ns ! j)"
        "d_gt (score env (ns ! j)) (Fin (- 1))"
        by blast
      from find_best_node_None [OF none j(1,2)] j(3) show False by simp
    qed
  next
    assume "find_best_node env t ns cfg \<noteq> None"
    then obtain k where "find_best_node env t ns cfg = Some k" by auto
    with sel have "k < length ns \<and> \<not> skipped t (ns ! k)
        \<and> d_gt (score env (ns ! k)) (Fin (- 1))" by simp
    then show "\<exists>j < length ns. \<not> skipped t (ns ! j) \<and> d_gt (score env (ns ! j)) (Fin (- 1))"
      by blast
  qed
qed

theorem find_best_node_first_maximum_witness:
  "find_best_node sample_env 100 [sample_worker ''w1'' 5, sample_worker ''w2'' 6]
       (sample_config ''web'') = Some 0
   \<and> n_id ([sample_worker ''w1'' 5, sample_worker ''w2'' 6] ! 0) = ''w1''
   \<and> \<not> skipped 100 ([sample_worker ''w1'' 5, sample_worker ''w2'' 6] ! 1)
   \<and> score sample_env ([sample_worker ''w1'' 5, sample_worker ''w2'' 6] ! 1)
       = score sample_env ([sample_worker ''w1'' 5, sample_worker ''w2'' 6] ! 0)
   \<and> d_gt (score sample_env ([sample_worker ''w1'' 5, sample_worker ''w2'' 6] ! 0)) (Fin (- 1))
   \<and> \<not> skipped 100 (overloaded_worker ''w1'')
   \<and> \<not> skipped 100 (overloaded_worker ''w2'')
   \<and> score sample_env (overloaded_worker ''w1'') = Fin (- 100)
   \<and> score sample_env (overloaded_worker ''w2'') = Fin (- 100)
   \<and> find_best_node sample_env 100 [overloaded_worker ''w1'', overloaded_worker ''w2'']
       (sample_config ''web'') = None"
proof -
  have sel: "find_best_node sample_env 100 [sample_worker ''w1'' 5, sample_worker ''w2'' 6]
      (sample_config ''web'') = Some 0"
    by (simp add: placement_defs sample_defs sample_env_def)
  have tie: "\<not> skipped 100 ([sample_worker ''w1'' 5, sample_worker ''w2'' 6] ! 1)
     \<and> score sample_env ([sample_worker ''w1'' 5, sample_worker ''w2'' 6] ! 1)
         = score sample_env ([sample_worker ''w1'' 5, sample_worker ''w2'' 6] ! 0)"
    by (simp add: placement_defs sample_defs sample_env_def)
  have ex: "\<exists>j < length [sample_worker ''w1'' 5, sample_worker ''w2'' 6].
      \<not> skipped 100 ([sample_worker ''w1'' 5, sample_worker ''w2'' 6] ! j)
      \<and> d_gt (score sample_env ([sample_worker ''w1'' 5, sample_worker ''w2'' 6] ! j))
           (Fin (- 1))"
    by (rule exI [of _ 0]) (simp add: placement_defs sample_defs sample_env_def)
  have name: "n_id ([sample_worker ''w1'' 5, sample_worker ''w2'' 6] ! 0) = ''w1''"
    by (simp add: sample_defs)
  from find_best_node_first_maximum
    [of sample_env 100 "[sample_worker ''w1'' 5, sample_worker ''w2'' 6]" "sample_config ''web''"]
    sel tie ex name
  have first: "find_best_node sample_env 100 [sample_worker ''w1'' 5, sample_worker ''w2'' 6]
       (sample_config ''web'') = Some 0
   \<and> n_id ([sample_worker ''w1'' 5, sample_worker ''w2'' 6] ! 0) = ''w1''
   \<and> \<not> skipped 100 ([sample_worker ''w1'' 5, sample_worker ''w2'' 6] ! 1)
   \<and> score sample_env ([sample_worker ''w1'' 5, sample_worker ''w2'' 6] ! 1)
       = score sample_env ([sample_worker ''w1'' 5, sample_worker ''w2'' 6] ! 0)
   \<and> d_gt (score sample_env ([sample_worker ''w1'' 5, sample_worker ''w2'' 6] ! 0)) (Fin (- 1))"
    by blast
  have low: "\<not> skipped 100 (overloaded_worker ''w1'')" "\<not> skipped 100 (overloaded_worker ''w2'')"
    "score sample_env (overloaded_worker ''w1'') = Fin (- 100)"
    "score sample_env (overloaded_worker ''w2'') = Fin (- 100)"
    by (simp_all add: placement_defs sample_defs sample_env_def)
  have "\<not> (\<exists>j < length [overloaded_worker ''w1'', overloaded_worker ''w2''].
      \<not> skipped 100 ([overloaded_worker ''w1'', overloaded_worker ''w2''] ! j)
      \<and> d_gt (score sample_env ([overloaded_worker ''w1'', overloaded_worker ''w2''] ! j))
           (Fin (- 1)))"
  proof
    assume "\<exists>j < length [overloaded_worker ''w1'', overloaded_worker ''w2''].
      \<not> skipped 100 ([overloaded_worker ''w1'', overloaded_worker ''w2''] ! j)
      \<and> d_gt (score sample_env ([overloaded_worker ''w1'', overloaded_worker ''w2''] ! j))
           (Fin (- 1))"
    then obtain j where j: "j < Suc (Suc 0)"
      "d_gt (score sample_env ([overloaded_worker ''w1'', overloaded_worker ''w2''] ! j))
           (Fin (- 1))" by auto
    from j(1) have "j = 0 \<or> j = Suc 0" by (auto simp: less_Suc_eq)
    with j(2) show False by (auto simp: low)
  qed
  with find_best_node_first_maximum
    [of sample_env 100 "[overloaded_worker ''w1'', overloaded_worker ''w2'']"
      "sample_config ''web''"]
  have none: "find_best_node sample_env 100 [overloaded_worker ''w1'', overloaded_worker ''w2'']
       (sample_config ''web'') = None"
    by blast
  from first low none show ?thesis by simp
qed

section \<open>Wire claim\<close>

text \<open>
  Claim C8. A message whose payload is at most as long as the frame's data region
  (\<open>DATA_SIZE\<close> bytes), with sender and recipient ids that are C strings fitting their
  \<open>char[MAX_NAME_LEN]\<close> fields, survives the wire: the frame that \<open>create_message\<close>
  builds is \<open>BUFFER_SIZE\<close> bytes long, \<open>receive_message\<close> on these bytes yields the
  same struct, and \<open>type\<close>, \<open>sender_id\<close>, \<open>recipient_id\<close>, \<open>data_length\<close> and the
  payload bytes read back from it are the ones given.
\<close>

theorem create_message_roundtrip:
  assumes "length payload \<le> DATA_SIZE"
    and "NUL \<notin> set sender" and "length sender < MAX_NAME_LEN"
    and "NUL \<notin> set recipient" and "length recipient < MAX_NAME_LEN"
    and "0 \<le> fd"
  shows "let msg = create_message ty sender recipient payload (int (length payload)) in
         length (frame_of msg) = BUFFER_SIZE
         \<and> receive_message fd (frame_of msg) = Some msg
         \<and> type_of_code (m_type msg) = Some ty
         \<and> c_str (sender_id msg) = sender
         \<and> c_str (recipient_id msg) = recipient
         \<and> data_length msg = int (length payload)
         \<and> take (length payload) (data msg) = payload"
proof -
  define msg where "msg = create_message ty sender recipient payload (int (length payload))"
  have sized: "frame_sized msg" unfolding msg_def by (rule create_message_frame_sized)
  have len: "length (frame_of msg) = BUFFER_SIZE" using sized by (rule length_frame_of)
  have recv: "receive_message fd (frame_of msg) = Some msg"
    using assms(6) len message_of_frame_of [OF sized] by (simp add: receive_message_def)
  have ty: "type_of_code (m_type msg) = Some ty"
    by (simp add: msg_def create_message_def Let_def type_of_code_type_code)
  have sid: "c_str (sender_id msg) = sender"
    using assms(2,3) by (simp add: msg_def create_message_def Let_def c_str_zero_fill)
  have rcp: "c_str (recipient_id msg) = recipient"
    using assms(4,5) by (simp add: msg_def create_message_def Let_def c_str_zero_fill)
  have dl: "data_length msg = int (length payload)"
    using assms(1) by (simp add: msg_def create_message_def Let_def)
  have pl: "take (length payload) (data msg) = payload"
    using assms(1) by (cases "payload = []")
      (simp_all add: msg_def create_message_def Let_def zero_fill_def)
  from len recv ty sid rcp dl pl show ?thesis by (simp add: msg_def Let_def)
qed

theorem create_message_roundtrip_witness:
  "length ''registered'' \<le> DATA_SIZE
   \<and> NUL \<notin> set ''coordinator'' \<and> length ''coordinator'' < MAX_NAME_LEN
   \<and> NUL \<notin> set ''w1'' \<and> length ''w1'' < MAX_NAME_LEN
   \<and> receive_message 5 (frame_of (create_message MSG_ACK ''coordinator'' ''w1'' ''registered''
        (int (length ''registered''))))
      = Some (create_message MSG_ACK ''coordinator'' ''w1'' ''registered''
          (int (length ''registered'')))
   \<and> c_str (sender_id (create_message MSG_ACK ''coordinator'' ''w1'' ''registered''
        (int (length ''registered'')))) = ''coordinator''
   \<and> take (length ''registered'') (data (create_message MSG_ACK ''coordinator'' ''w1''
        ''registered'' (int (length ''registered'')))) = ''registered''"
proof -
  have h1: "length ''registered'' \<le> DATA_SIZE"
    by (simp add: DATA_SIZE_def BUFFER_SIZE_def MAX_NAME_LEN_def)
  have h2: "NUL \<notin> set ''coordinator''" by (simp add: NUL_def)
  have h3: "length ''coordinator'' < MAX_NAME_LEN" by (simp add: MAX_NAME_LEN_def)
  have h4: "NUL \<notin> set ''w1''" by (simp add: NUL_def)
  have h5: "length ''w1'' < MAX_NAME_LEN" by (simp add: MAX_NAME_LEN_def)
  have h6: "(0::int) \<le> 5" by simp
  from create_message_roundtrip [OF h1 h2 h3 h4 h5 h6, of MSG_ACK] h1 h2 h3 h4 h5
  show ?thesis by (simp only: Let_def) blast
qed

section \<open>Ledger claims\<close>

text \<open>
  Claim C3, as stated: when a worker disconnects or is unregistered, its containers in
  the ledger go to \<open>CONTAINER_ERROR\<close> and stay in the ledger. The records do stay, but
  nothing sets them to \<open>CONTAINER_ERROR\<close>: after scenario S3 the ledger still holds
  \<open>w1_web\<close> of node \<open>w1\<close> in \<open>CONTAINER_STARTING\<close>, with \<open>w1\<close> disconnected, and the
  same after \<open>unregister_node\<close>, with \<open>w1\<close> gone from the registry.
\<close>

theorem disconnect_leaves_state_counterexample:
  "length (deployed_containers (run closed_run init_coord)) = 1
   \<and> c_id (deployed_containers (run closed_run init_coord) ! 0) = ''w1_web''
   \<and> c_node_id (deployed_containers (run closed_run init_coord) ! 0) = ''w1''
   \<and> n_id (nodes (run closed_run init_coord) ! 0) = ''w1''
   \<and> n_state (nodes (run closed_run init_coord) ! 0) = NODE_DISCONNECTED
   \<and> get_container_status (run closed_run init_coord) ''w1_web'' = CONTAINER_STARTING
   \<and> nodes (run unregistered_run init_coord) = []
   \<and> c_node_id (deployed_containers (run unregistered_run init_coord) ! 0) = ''w1''
   \<and> get_container_status (run unregistered_run init_coord) ''w1_web'' = CONTAINER_STARTING"
  by (simp add: model_defs scenario_defs frame_simps sample_defs placement_defs)

text \<open>
  Claim C3, amended: when a worker disconnects or is unregistered, every container
  record stays in the ledger with the state it had: neither a whole run of
  \<open>handle_client_connection\<close>, nor its cleanup, nor \<open>unregister_node\<close> changes
  \<open>deployed_containers\<close>.
\<close>

theorem disconnect_keeps_ledger:
  "deployed_containers (handle_client_connection env fd blocks s) = deployed_containers s
   \<and> deployed_containers (client_cleanup nid s) = deployed_containers s
   \<and> deployed_containers (snd (unregister_node nid s)) = deployed_containers s"
proof -
  obtain nid' s' where l: "client_loop env fd blocks ([], s) = (nid', s')"
    by (cases "client_loop env fd blocks ([], s)")
  have "deployed_containers s' = deployed_containers s"
    using deployed_client_loop [of env fd blocks "[]" s] l by simp
  then have "deployed_containers (handle_client_connection env fd blocks s)
      = deployed_containers s"
    using l by (simp add: handle_client_connection_def deployed_client_cleanup)
  moreover have "deployed_containers (snd (unregister_node nid s)) = deployed_containers s"
    by (simp add: unregister_node_def split: option.splits)
  ultimately show ?thesis by (simp add: deployed_client_cleanup)
qed

text \<open>
  Claim C4 at its failing input. The ledger holds \<open>w1_web\<close> in \<open>CONTAINER_STARTING\<close>;
  \<open>w1\<close> reports it as \<open>CONTAINER_RUNNING\<close> in a \<open>CONTAINER_STATUS\<close> frame of full size.
  The handler writes the state into the copy in \<open>w1\<close>'s registry record, and
  \<open>get_container_status\<close>, which reads the ledger, still answers \<open>CONTAINER_STARTING\<close>.
\<close>

theorem status_update_misses_ledger:
  "get_container_status (run deploy_run init_coord) ''w1_web'' = CONTAINER_STARTING
   \<and> type_of_code (m_type running_report) = Some MSG_CONTAINER_STATUS
   \<and> c_str (sender_id running_report) = ''w1''
   \<and> size_t_of_int (data_length running_report) \<ge> sizeof_container_t sample_env
   \<and> update_id sample_env (data running_report) = ''w1_web''
   \<and> update_state sample_env (data running_report) = CONTAINER_RUNNING
   \<and> get_container_status (run status_run init_coord) ''w1_web'' = CONTAINER_STARTING
   \<and> c_id (containers (nodes (run status_run init_coord) ! 0) ! 0) = ''w1_web''
   \<and> c_state (containers (nodes (run status_run init_coord) ! 0) ! 0) = CONTAINER_RUNNING"
  by (simp add: model_defs scenario_defs frame_simps sample_defs placement_defs)

section \<open>Capacity claims\<close>

lemma length_full_registry: "length full_registry = 256"
  by (simp add: full_registry_def)

lemma full_registry_first: "find_node_by_id full_registry (tag 0) = Some 0"
proof -
  have u: "[0..<256] = 0 # [Suc 0..<256]" by (rule upt_conv_Cons) simp
  show ?thesis by (simp add: full_registry_def find_node_by_id_Cons sample_worker_def u)
qed

text \<open>
  Claim C6 at its failing input. The registry holds \<open>MAX_NODES\<close> workers and the
  connection of the first one has closed. Its re-registration, with an id that is in the
  registry, is refused by the capacity test that \<open>register_node\<close> makes before it looks
  for the id: the record is not updated and stays \<open>NODE_DISCONNECTED\<close>.
\<close>

theorem register_node_full_rejects_known:
  "length (nodes full_state) = MAX_NODES
   \<and> find_node_by_id (nodes full_state) (tag 0) = Some 0
   \<and> n_state (nodes full_state ! 0) = NODE_DISCONNECTED
   \<and> register_node 100 (tag 0) ''host'' ''10.0.0.1'' 8888 full_state
       = (Some MaxNodesReached, full_state)"
proof -
  have t: "0 < length (tag 0)" by (simp add: tag_def)
  have s: "full_state = \<lparr>nodes = full_registry[0 := (full_registry ! 0)
      \<lparr>n_state := NODE_DISCONNECTED, socket_fd := - 1\<rparr>], deployed_containers = [], sent = [],
      slot_fds = []\<rparr>"
    using t by (simp add: full_state_def client_cleanup_def full_registry_first)
  have l: "length (nodes full_state) = MAX_NODES"
    by (simp add: s length_full_registry MAX_NODES_def)
  have f: "find_node_by_id (nodes full_state) (tag 0) = Some 0"
    by (simp add: s find_node_by_id_update full_registry_first)
  have d: "n_state (nodes full_state ! 0) = NODE_DISCONNECTED"
    by (simp add: s length_full_registry)
  have r: "register_node 100 (tag 0) ''host'' ''10.0.0.1'' 8888 full_state
       = (Some MaxNodesReached, full_state)"
    using l by (simp add: register_node_def)
  from l f d r show ?thesis by simp
qed

text \<open>
  Claim C10, as stated: with \<open>MAX_CONTAINERS\<close> records in the ledger, \<open>deploy_container\<close>
  to a connected worker still sends the frame and returns 0. It does so only when the
  send succeeds. After \<open>detached_full_run\<close> the ledger is full and \<open>w1\<close> is
  \<open>NODE_CONNECTED\<close> with \<open>socket_fd = -1\<close>: its connection closed, and the heartbeat that
  named it on another connection set the state and left the descriptor. There
  \<open>deploy_container\<close> to \<open>w1\<close> returns -1 and sends nothing.
\<close>

theorem deploy_container_full_ledger_counterexample:
  "length (deployed_containers (run detached_full_run init_coord)) = MAX_CONTAINERS
   \<and> find_node_by_id (nodes (run detached_full_run init_coord)) ''w1'' = Some 0
   \<and> n_state (nodes (run detached_full_run init_coord) ! 0) = NODE_CONNECTED
   \<and> socket_fd (nodes (run detached_full_run init_coord) ! 0) = - 1
   \<and> return_code (fst (deploy_container sample_env 100 ''w1'' (sample_config ''webapp'')
        (run detached_full_run init_coord))) = - 1
   \<and> snd (deploy_container sample_env 100 ''w1'' (sample_config ''webapp'')
        (run detached_full_run init_coord)) = run detached_full_run init_coord"
proof -
  let ?S = "run detached_full_run init_coord"
  from detached_full_run_state
  have n: "nodes ?S
      = [(sample_worker ''w1'' (- 1))\<lparr>last_heartbeat := 94, containers := full_ledger\<rparr>]"
    and l: "deployed_containers ?S = full_ledger" by simp_all
  have d: "deploy_container sample_env 100 ''w1'' (sample_config ''webapp'') ?S
      = (Some SendFailed, ?S)"
    by (simp add: deploy_container_def n find_node_by_id_Cons sample_worker_def
        send_message_def Let_def)
  show ?thesis
    by (simp add: d n l length_full_ledger find_node_by_id_Cons sample_worker_def
        return_code_def)
qed

text \<open>
  Claim C10, amended. With \<open>MAX_CONTAINERS\<close> records in the ledger, \<open>deploy_container\<close>
  to a connected worker records no container, neither in the ledger nor in the worker's
  registry record. If the send succeeds (the worker's \<open>socket_fd\<close> is not negative and
  \<open>send\<close> transmits the whole frame), the \<open>DEPLOY_CONTAINER\<close> frame goes to the worker
  and 0 is returned, so the deployed container is untracked; if the send fails, nothing
  is sent and -1 is returned.
\<close>

theorem deploy_container_full_ledger:
  assumes "length (deployed_containers s) = MAX_CONTAINERS"
    and "find_node_by_id (nodes s) node_id = Some k"
    and "n_state (nodes s ! k) = NODE_CONNECTED"
  shows "(0 \<le> socket_fd (nodes s ! k) \<and> send_ok env (socket_fd (nodes s ! k)) \<longrightarrow>
           deploy_container env now node_id config s =
             (None, s\<lparr>sent := sent s @ [(socket_fd (nodes s ! k),
                frame_of (create_message MSG_DEPLOY_CONTAINER ''coordinator'' node_id
                  (config_bytes env config) (int (sizeof_lxc_config_t env))))]\<rparr>)
           \<and> return_code (fst (deploy_container env now node_id config s)) = 0)
       \<and> (\<not> (0 \<le> socket_fd (nodes s ! k) \<and> send_ok env (socket_fd (nodes s ! k))) \<longrightarrow>
           deploy_container env now node_id config s = (Some SendFailed, s)
           \<and> return_code (fst (deploy_container env now node_id config s)) = - 1)
       \<and> deployed_containers (snd (deploy_container env now node_id config s))
           = deployed_containers s
       \<and> nodes (snd (deploy_container env now node_id config s)) = nodes s"
  using assms by (auto simp: deploy_container_def send_message_def Let_def return_code_def)

theorem deploy_container_full_ledger_witness:
  "length (deployed_containers (run full_ledger_run init_coord)) = MAX_CONTAINERS
   \<and> find_node_by_id (nodes (run full_ledger_run init_coord)) ''w1'' = Some 0
   \<and> n_state (nodes (run full_ledger_run init_coord) ! 0) = NODE_CONNECTED
   \<and> socket_fd (nodes (run full_ledger_run init_coord) ! 0) = 5
   \<and> send_ok sample_env 5
   \<and> return_code (fst (deploy_container sample_env 100 ''w1'' (sample_config ''webapp'')
        (run full_ledger_run init_coord))) = 0
   \<and> sent (snd (deploy_container sample_env 100 ''w1'' (sample_config ''webapp'')
        (run full_ledger_run init_coord)))
      = sent (run full_ledger_run init_coord)
        @ [(5, frame_of (create_message MSG_DEPLOY_CONTAINER ''coordinator'' ''w1''
           (config_bytes sample_env (sample_config ''webapp''))
           (int (sizeof_lxc_config_t sample_env))))]
   \<and> deployed_containers (snd (deploy_container sample_env 100 ''w1'' (sample_config ''webapp'')
        (run full_ledger_run init_coord))) = full_ledger
   \<and> get_container_status (snd (deploy_container sample_env 100 ''w1'' (sample_config ''webapp'')
        (run full_ledger_run init_coord))) ''w1_webapp'' = CONTAINER_ERROR
   \<and> socket_fd (nodes (run detached_full_run init_coord) ! 0) = - 1
   \<and> return_code (fst (deploy_container sample_env 100 ''w1'' (sample_config ''webapp'')
        (run detached_full_run init_coord))) = - 1
   \<and> sent (snd (deploy_container sample_env 100 ''w1'' (sample_config ''webapp'')
        (run detached_full_run init_coord))) = sent (run detached_full_run init_coord)"
proof -
  let ?S = "run full_ledger_run init_coord"
  let ?D = "run detached_full_run init_coord"
  from full_ledger_run_state
  have n: "nodes ?S = [(sample_worker ''w1'' 5)\<lparr>last_heartbeat := 91, containers := full_ledger\<rparr>]"
    and l: "deployed_containers ?S = full_ledger" by simp_all
  have h1: "length (deployed_containers ?S) = MAX_CONTAINERS"
    by (simp add: l length_full_ledger)
  have h2: "find_node_by_id (nodes ?S) ''w1'' = Some 0"
    by (simp add: n find_node_by_id_Cons sample_worker_def)
  have h3: "n_state (nodes ?S ! 0) = NODE_CONNECTED"
    by (simp add: n sample_worker_def)
  have fd: "socket_fd (nodes ?S ! 0) = 5"
    by (simp add: n sample_worker_def)
  have ok: "send_ok sample_env 5"
    by (simp add: sample_env_def)
  from deploy_container_full_ledger
    [OF h1 h2 h3, where env = sample_env and now = 100 and config = "sample_config ''webapp''"]
    fd ok
  have d: "deploy_container sample_env 100 ''w1'' (sample_config ''webapp'') ?S =
      (None, ?S\<lparr>sent := sent ?S
         @ [(5, frame_of (create_message MSG_DEPLOY_CONTAINER ''coordinator'' ''w1''
           (config_bytes sample_env (sample_config ''webapp''))
           (int (sizeof_lxc_config_t sample_env))))]\<rparr>)"
    by simp
  from detached_full_run_state
  have n': "nodes ?D
      = [(sample_worker ''w1'' (- 1))\<lparr>last_heartbeat := 94, containers := full_ledger\<rparr>]"
    and l': "deployed_containers ?D = full_ledger" by simp_all
  have g1: "length (deployed_containers ?D) = MAX_CONTAINERS"
    by (simp add: l' length_full_ledger)
  have g2: "find_node_by_id (nodes ?D) ''w1'' = Some 0"
    by (simp add: n' find_node_by_id_Cons sample_worker_def)
  have g3: "n_state (nodes ?D ! 0) = NODE_CONNECTED"
    by (simp add: n' sample_worker_def)
  have fd': "socket_fd (nodes ?D ! 0) = - 1"
    by (simp add: n' sample_worker_def)
  from deploy_container_full_ledger
    [OF g1 g2 g3, where env = sample_env and now = 100 and config = "sample_config ''webapp''"]
    fd'
  have d': "deploy_container sample_env 100 ''w1'' (sample_config ''webapp'') ?D
      = (Some SendFailed, ?D)"
    by simp
  show ?thesis using h1 h2 h3 fd ok fd' full_ledger_untracked
    by (simp add: d d' l get_container_status_def return_code_def)
qed

section \<open>Liveness and routing claims\<close>

text \<open>
  Claim C5, as stated: a connected worker whose last heartbeat is more than 30 seconds
  old is marked disconnected by a reaper within 5 seconds. The coordinator has no
  reaper: no action is driven by the clock. \<open>w1\<close> registers at time 0 and sends its
  last heartbeat at time 1; when the operator deploys at time 100 the heartbeat is 99
  seconds old, placement finds no node, and \<open>w1\<close> is still \<open>NODE_CONNECTED\<close>.
\<close>

theorem stale_worker_stays_connected_counterexample:
  "worker_state (run stale_run init_coord) ''w1'' = Some NODE_CONNECTED
   \<and> n_id (nodes (run stale_run init_coord) ! 0) = ''w1''
   \<and> last_heartbeat (nodes (run stale_run init_coord) ! 0) = 1
   \<and> (30::int) + 5 < 100 - last_heartbeat (nodes (run stale_run init_coord) ! 0)
   \<and> deployed_containers (run stale_run init_coord) = []"
  by (simp add: worker_state_def model_defs scenario_defs frame_simps sample_defs placement_defs)

text \<open>
  Claim C5, amended. The coordinator has no reaper and no timer. A worker that is
  \<open>NODE_CONNECTED\<close> stays so, at any clock value and however old its heartbeat, through
  every action of the coordinator other than the cleanup of \<open>handle_client_connection\<close>
  for its id and \<open>unregister_node\<close> for its id. That cleanup runs once, when the
  connection's loop has ended, for the id in the thread's \<open>node_id\<close> variable, which
  each \<open>REGISTER_NODE\<close> frame overwrites with its sender id and no other frame changes
  (so a connection marks the id of the last registration it delivered, and no other).
  For a non-empty id in the registry the cleanup sets the record's state to
  \<open>NODE_DISCONNECTED\<close> and its \<open>socket_fd\<close> to -1, and it leaves the state of every
  other id as it was. An old heartbeat does not change the state; it makes
  \<open>find_best_node\<close> pass over the worker: \<open>find_best_node\<close> never returns a worker whose
  heartbeat is more than 30 seconds old.
\<close>

theorem connected_until_connection_closes:
  "(worker_state s w = Some NODE_CONNECTED \<and> a \<noteq> Closed w \<and> a \<noteq> Unregister w
      \<longrightarrow> worker_state (step env now a s) w = Some NODE_CONNECTED)
   \<and> (worker_state s w \<noteq> None \<and> w \<noteq> []
      \<longrightarrow> worker_state (step env now (Closed w) s) w = Some NODE_DISCONNECTED
        \<and> (\<exists>k. find_node_by_id (nodes (step env now (Closed w) s)) w = Some k
             \<and> n_state (nodes (step env now (Closed w) s) ! k) = NODE_DISCONNECTED
             \<and> socket_fd (nodes (step env now (Closed w) s) ! k) = - 1))
   \<and> (w' \<noteq> w \<longrightarrow> worker_state (step env now (Closed w) s) w' = worker_state s w')
   \<and> fst (handle_message env now client_socket msg (node_id, s))
       = (if type_of_code (m_type msg) = Some MSG_REGISTER_NODE then c_str (sender_id msg)
          else node_id)
   \<and> handle_client_connection env client_socket blocks s
       = step env now (Closed (fst (client_loop env client_socket blocks ([], s))))
           (snd (client_loop env client_socket blocks ([], s)))
   \<and> (\<forall>k. find_best_node env t (nodes s) cfg = Some k
          \<longrightarrow> t - last_heartbeat (nodes s ! k) \<le> 30)"
proof -
  have stays: "worker_state s w = Some NODE_CONNECTED \<and> a \<noteq> Closed w \<and> a \<noteq> Unregister w
      \<longrightarrow> worker_state (step env now a s) w = Some NODE_CONNECTED"
    using edit_keeps_connected [OF step_edit [of env a s now], of w]
    by (simp add: worker_state_find)
  have marks: "worker_state s w \<noteq> None \<and> w \<noteq> []
      \<longrightarrow> worker_state (step env now (Closed w) s) w = Some NODE_DISCONNECTED
        \<and> (\<exists>k. find_node_by_id (nodes (step env now (Closed w) s)) w = Some k
             \<and> n_state (nodes (step env now (Closed w) s) ! k) = NODE_DISCONNECTED
             \<and> socket_fd (nodes (step env now (Closed w) s) ! k) = - 1)"
  proof
    assume h: "worker_state s w \<noteq> None \<and> w \<noteq> []"
    then obtain k where k: "find_node_by_id (nodes s) w = Some k"
      by (auto simp: worker_state_def)
    from find_node_by_id_Some [OF k] have lt: "k < length (nodes s)" by simp
    from h k lt show "worker_state (step env now (Closed w) s) w = Some NODE_DISCONNECTED
        \<and> (\<exists>k. find_node_by_id (nodes (step env now (Closed w) s)) w = Some k
             \<and> n_state (nodes (step env now (Closed w) s) ! k) = NODE_DISCONNECTED
             \<and> socket_fd (nodes (step env now (Closed w) s) ! k) = - 1)"
      by (simp add: worker_state_def client_cleanup_def find_node_by_id_update)
  qed
  have others: "w' \<noteq> w \<longrightarrow> worker_state (step env now (Closed w) s) w' = worker_state s w'"
  proof
    assume ne: "w' \<noteq> w"
    show "worker_state (step env now (Closed w) s) w' = worker_state s w'"
    proof (cases "find_node_by_id (nodes s) w")
      case None
      then show ?thesis by (simp add: client_cleanup_def)
    next
      case (Some k)
      from find_node_by_id_Some [OF Some] have k: "k < length (nodes s)" "n_id (nodes s ! k) = w"
        by simp_all
      show ?thesis
      proof (cases "find_node_by_id (nodes s) w'")
        case None
        with Some show ?thesis
          by (simp add: worker_state_def client_cleanup_def find_node_by_id_update)
      next
        case (Some j)
        from find_node_by_id_Some [OF Some] have "n_id (nodes s ! j) = w'" by simp
        with k(2) ne have "j \<noteq> k" by auto
        with Some \<open>find_node_by_id (nodes s) w = Some k\<close> show ?thesis
          by (simp add: worker_state_def client_cleanup_def find_node_by_id_update)
      qed
    qed
  qed
  have variable: "fst (handle_message env now client_socket msg (node_id, s))
       = (if type_of_code (m_type msg) = Some MSG_REGISTER_NODE then c_str (sender_id msg)
          else node_id)"
    by (simp add: handle_message_def Let_def
        split: option.splits message_type_t.splits prod.splits)
  have cleanup: "handle_client_connection env client_socket blocks s
       = step env now (Closed (fst (client_loop env client_socket blocks ([], s))))
           (snd (client_loop env client_socket blocks ([], s)))"
    by (simp add: handle_client_connection_def split: prod.splits)
  have placement: "\<forall>k. find_best_node env t (nodes s) cfg = Some k
          \<longrightarrow> t - last_heartbeat (nodes s ! k) \<le> 30"
  proof (intro allI impI)
    fix k
    assume "find_best_node env t (nodes s) cfg = Some k"
    from find_best_node_Some [OF this] have "\<not> skipped t (nodes s ! k)" by simp
    then show "t - last_heartbeat (nodes s ! k) \<le> 30" by (simp add: skipped_def)
  qed
  from stays marks others variable cleanup placement show ?thesis by blast
qed

theorem connected_until_connection_closes_witness:
  "worker_state (run stale_run init_coord) ''w1'' = Some NODE_CONNECTED
   \<and> worker_state (step sample_env 1000 (DeployAuto (sample_config ''web''))
        (run stale_run init_coord)) ''w1'' = Some NODE_CONNECTED
   \<and> worker_state (step sample_env 1000 (Closed ''w1'') (run stale_run init_coord)) ''w1''
       = Some NODE_DISCONNECTED
   \<and> find_node_by_id (nodes (step sample_env 1000 (Closed ''w1'') (run stale_run init_coord)))
        ''w1'' = Some 0
   \<and> socket_fd (nodes (step sample_env 1000 (Closed ''w1'') (run stale_run init_coord)) ! 0)
       = - 1
   \<and> worker_state (step sample_env 1000 (Closed ''w2'') (run stale_run init_coord)) ''w1''
       = Some NODE_CONNECTED
   \<and> find_best_node sample_env 20 (nodes (run stale_run init_coord)) (sample_config ''web'')
       = Some 0
   \<and> 20 - last_heartbeat (nodes (run stale_run init_coord) ! 0) \<le> 30
   \<and> find_best_node sample_env 1000 (nodes (run stale_run init_coord)) (sample_config ''web'')
       = None"
proof -
  let ?S = "run stale_run init_coord"
  have n: "nodes ?S = [(sample_worker ''w1'' 5)\<lparr>last_heartbeat := 1\<rparr>]"
    by (simp add: model_defs scenario_defs frame_simps sample_defs placement_defs)
  have c: "worker_state ?S ''w1'' = Some NODE_CONNECTED"
    by (simp add: worker_state_def n find_node_by_id_Cons sample_worker_def)
  have a: "DeployAuto (sample_config ''web'') \<noteq> Closed ''w1''
      \<and> DeployAuto (sample_config ''web'') \<noteq> Unregister ''w1''" by simp
  have ne: "worker_state ?S ''w1'' \<noteq> None \<and> ''w1'' \<noteq> []"
    using c by simp
  have f: "find_node_by_id (nodes (step sample_env 1000 (Closed ''w1'') ?S)) ''w1'' = Some 0"
    by (simp add: n client_cleanup_def find_node_by_id_Cons sample_worker_def)
  have p: "find_best_node sample_env 20 (nodes ?S) (sample_config ''web'') = Some 0"
    by (simp add: n sample_env_def sample_defs placement_defs)
  have q: "find_best_node sample_env 1000 (nodes ?S) (sample_config ''web'') = None"
    by (simp add: n sample_env_def sample_defs placement_defs)
  from connected_until_connection_closes
    [of ?S "''w1''" "DeployAuto (sample_config ''web'')" sample_env 1000 "''w1''"]
    c a ne
  have one: "worker_state (step sample_env 1000 (DeployAuto (sample_config ''web'')) ?S) ''w1''
       = Some NODE_CONNECTED
     \<and> worker_state (step sample_env 1000 (Closed ''w1'') ?S) ''w1'' = Some NODE_DISCONNECTED
     \<and> (\<exists>k. find_node_by_id (nodes (step sample_env 1000 (Closed ''w1'') ?S)) ''w1'' = Some k
           \<and> socket_fd (nodes (step sample_env 1000 (Closed ''w1'') ?S) ! k) = - 1)"
    by blast
  with f have fd: "socket_fd (nodes (step sample_env 1000 (Closed ''w1'') ?S) ! 0) = - 1"
    by auto
  have "''w1'' \<noteq> ''w2''" by simp
  with connected_until_connection_closes
    [of ?S "''w2''" "DeployAuto (sample_config ''web'')" sample_env 1000 "''w1''"
      _ _ _ _ 20 "sample_config ''web''"] p
  have two: "worker_state (step sample_env 1000 (Closed ''w2'') ?S) ''w1'' = worker_state ?S ''w1''
     \<and> 20 - last_heartbeat (nodes ?S ! 0) \<le> 30"
    by blast
  from c one f fd two p q show ?thesis by simp
qed

text \<open>
  Claim C7, as stated: \<open>start\<close>, \<open>stop\<close> and \<open>delete\<close> on a container whose worker is not
  connected are rejected. \<open>delete_container\<close> is not: after scenario S3, with \<open>w1\<close>
  disconnected, deleting \<open>w1_web\<close> returns 0 and removes the record from the ledger.
\<close>

theorem delete_not_rejected_counterexample:
  "c_node_id (deployed_containers (run closed_run init_coord) ! 0) = ''w1''
   \<and> worker_state (run closed_run init_coord) ''w1'' = Some NODE_DISCONNECTED
   \<and> find_container (deployed_containers (run closed_run init_coord)) ''w1_web'' = Some 0
   \<and> return_code (fst (delete_container sample_env ''w1_web'' (run closed_run init_coord))) = 0
   \<and> deployed_containers (snd (delete_container sample_env ''w1_web''
        (run closed_run init_coord))) = []"
  by (simp add: worker_state_def return_code_def model_defs scenario_defs frame_simps
      sample_defs placement_defs)

text \<open>
  Claim C7, amended: in every state that the coordinator reaches from its initial state
  by running its operations one after another, for a container of the ledger whose
  owning worker is not \<open>NODE_CONNECTED\<close> (or is no longer in the registry),
  \<open>start_container\<close> and \<open>stop_container\<close> return -1, send nothing and change nothing,
  while \<open>delete_container\<close> sends nothing, removes the record from the ledger and
  returns 0. (A worker that is not connected has \<open>socket_fd = -1\<close> in every such state,
  so \<open>send_message\<close> refuses; \<open>start\<close> and \<open>stop\<close> do not test the state themselves.)
\<close>

theorem start_stop_rejected_delete_proceeds:
  assumes "s = run tr init_coord"
    and "find_container (deployed_containers s) cid = Some i"
    and "worker_state s (c_node_id (deployed_containers s ! i)) \<noteq> Some NODE_CONNECTED"
  shows "return_code (fst (start_container env cid s)) = - 1
       \<and> snd (start_container env cid s) = s
       \<and> return_code (fst (stop_container env cid s)) = - 1
       \<and> snd (stop_container env cid s) = s
       \<and> return_code (fst (delete_container env cid s)) = 0
       \<and> sent (snd (delete_container env cid s)) = sent s
       \<and> deployed_containers (snd (delete_container env cid s))
           = take i (deployed_containers s) @ drop (Suc i) (deployed_containers s)"
proof (cases "find_node_by_id (nodes s) (c_node_id (deployed_containers s ! i))")
  case None
  with assms(2) show ?thesis
    by (simp add: start_container_def stop_container_def delete_container_def Let_def
        return_code_def)
next
  case (Some k)
  from find_node_by_id_Some [OF Some] have k: "k < length (nodes s)" by simp
  then have mem: "nodes s ! k \<in> set (nodes s)" by simp
  have "\<forall>n \<in> set (nodes (run tr init_coord)). n_state n = NODE_CONNECTED \<or> socket_fd n < 0"
    by (rule run_detached) (simp add: init_coord_def)
  with assms(1) mem have "n_state (nodes s ! k) = NODE_CONNECTED \<or> socket_fd (nodes s ! k) < 0"
    by blast
  moreover from assms(3) Some have "n_state (nodes s ! k) \<noteq> NODE_CONNECTED"
    by (simp add: worker_state_def)
  ultimately have fd: "socket_fd (nodes s ! k) < 0" by simp
  then have send: "send_message env (socket_fd (nodes s ! k)) msg s = (- 1, s)" for msg
    by (simp add: send_message_def)
  from assms(2) Some send show ?thesis
    by (simp add: start_container_def stop_container_def delete_container_def Let_def
        return_code_def)
qed

theorem start_stop_rejected_delete_proceeds_witness:
  "find_container (deployed_containers (run closed_run init_coord)) ''w1_web'' = Some 0
   \<and> worker_state (run closed_run init_coord)
        (c_node_id (deployed_containers (run closed_run init_coord) ! 0))
       = Some NODE_DISCONNECTED
   \<and> return_code (fst (start_container sample_env ''w1_web'' (run closed_run init_coord))) = - 1
   \<and> snd (start_container sample_env ''w1_web'' (run closed_run init_coord))
       = run closed_run init_coord
   \<and> return_code (fst (stop_container sample_env ''w1_web'' (run closed_run init_coord))) = - 1
   \<and> return_code (fst (delete_container sample_env ''w1_web'' (run closed_run init_coord))) = 0"
proof -
  have f: "find_container (deployed_containers (run closed_run init_coord)) ''w1_web'' = Some 0"
    by (simp add: model_defs scenario_defs frame_simps sample_defs placement_defs)
  have w: "worker_state (run closed_run init_coord)
        (c_node_id (deployed_containers (run closed_run init_coord) ! 0))
       = Some NODE_DISCONNECTED"
    by (simp add: worker_state_def model_defs scenario_defs frame_simps sample_defs
        placement_defs)
  then have nc: "worker_state (run closed_run init_coord)
        (c_node_id (deployed_containers (run closed_run init_coord) ! 0))
       \<noteq> Some NODE_CONNECTED" by simp
  from start_stop_rejected_delete_proceeds [OF refl f nc, where env = sample_env] f w
  show ?thesis by simp
qed

text \<open>
  Claim C9. Registering an id that is not in the registry creates a record with
  \<open>max_containers = 0\<close> and no containers (when the registry has room), and as long as
  no heartbeat frame from this id arrives that is long enough to carry a
  \<open>resource_info_t\<close>, whatever else the coordinator does, \<open>find_best_node\<close> never
  returns a record with this id.
\<close>

theorem unheard_worker_never_placed:
  assumes "find_node_by_id (nodes s) w = None"
    and "type_of_code (m_type msg) = Some MSG_REGISTER_NODE"
    and "c_str (sender_id msg) = w"
    and "list_all (\<lambda>(env, now, a). \<not> resource_heartbeat env w a) tr"
    and "s' = run tr (step env0 now0 (Frame fd nid msg) s)"
  shows "(length (nodes s) < MAX_NODES \<longrightarrow>
           (\<exists>j. find_node_by_id (nodes (step env0 now0 (Frame fd nid msg) s)) w = Some j
              \<and> max_containers (resources (nodes (step env0 now0 (Frame fd nid msg) s) ! j)) = 0
              \<and> container_count (nodes (step env0 now0 (Frame fd nid msg) s) ! j) = 0))
       \<and> (\<forall>k. find_best_node penv t (nodes s') cfg = Some k \<longrightarrow> n_id (nodes s' ! k) \<noteq> w)"
proof (rule conjI)
  let ?s1 = "step env0 now0 (Frame fd nid msg) s"
  have nh: "\<not> resource_heartbeat env0 w (Frame fd nid msg)" using assms(2) by simp
  have q0: "\<forall>n \<in> set (nodes s). n_id n = w \<longrightarrow> max_containers (resources n) = 0"
    using assms(1) by (simp add: find_node_by_id_None)
  from edit_unheard [OF step_edit [of env0 "Frame fd nid msg" s now0] nh q0]
  have q1: "\<forall>n \<in> set (nodes ?s1). n_id n = w \<longrightarrow> max_containers (resources n) = 0" .
  from run_unheard [OF assms(4) q1] assms(5)
  have q: "\<forall>n \<in> set (nodes s'). n_id n = w \<longrightarrow> max_containers (resources n) = 0" by simp
  show "\<forall>k. find_best_node penv t (nodes s') cfg = Some k \<longrightarrow> n_id (nodes s' ! k) \<noteq> w"
  proof (intro allI impI notI)
    fix k
    assume sel: "find_best_node penv t (nodes s') cfg = Some k" and id: "n_id (nodes s' ! k) = w"
    from find_best_node_Some [OF sel] have k: "k < length (nodes s')"
      "\<not> skipped t (nodes s' ! k)" by simp_all
    from k(1) id q have "max_containers (resources (nodes s' ! k)) = 0" by simp
    with k(2) show False by (simp add: skipped_def container_count_def)
  qed
  show "length (nodes s) < MAX_NODES \<longrightarrow>
           (\<exists>j. find_node_by_id (nodes ?s1) w = Some j
              \<and> max_containers (resources (nodes ?s1 ! j)) = 0
              \<and> container_count (nodes ?s1 ! j) = 0)"
  proof
    assume room: "length (nodes s) < MAX_NODES"
    obtain h ip p where sc: "scan_registration env0 (data msg) = (h, ip, p)"
      by (cases "scan_registration env0 (data msg)")
    have "find_node_by_id (nodes ?s1) w = Some (length (nodes s))
        \<and> max_containers (resources (nodes ?s1 ! length (nodes s))) = 0
        \<and> container_count (nodes ?s1 ! length (nodes s)) = 0"
      using assms(1,2,3) room sc
      by (simp add: handle_message_def register_node_def Let_def find_node_by_id_append
          find_node_by_id_Cons find_node_by_id_Nil nodes_send_message container_count_def)
    then show "\<exists>j. find_node_by_id (nodes ?s1) w = Some j
              \<and> max_containers (resources (nodes ?s1 ! j)) = 0
              \<and> container_count (nodes ?s1 ! j) = 0" by blast
  qed
qed

theorem unheard_worker_never_placed_witness:
  "find_node_by_id (nodes init_coord) ''w1'' = None
   \<and> type_of_code (m_type (register_frame ''w1'')) = Some MSG_REGISTER_NODE
   \<and> c_str (sender_id (register_frame ''w1'')) = ''w1''
   \<and> length (nodes init_coord) < MAX_NODES
   \<and> worker_state (run unheard_run (step sample_env 90 (Frame 5 [] (register_frame ''w1''))
        init_coord)) ''w1'' = Some NODE_CONNECTED
   \<and> n_id (nodes (run unheard_run (step sample_env 90 (Frame 5 [] (register_frame ''w1''))
        init_coord)) ! 0) = ''w1''
   \<and> find_best_node sample_env 95 (nodes (run unheard_run (step sample_env 90
        (Frame 5 [] (register_frame ''w1'')) init_coord))) (sample_config ''web'') \<noteq> Some 0"
proof -
  let ?s' = "run unheard_run (step sample_env 90 (Frame 5 [] (register_frame ''w1'')) init_coord)"
  have h1: "find_node_by_id (nodes init_coord) ''w1'' = None"
    by (simp add: init_coord_def find_node_by_id_Nil)
  have h2: "type_of_code (m_type (register_frame ''w1'')) = Some MSG_REGISTER_NODE"
    by (simp add: register_frame_def m_type_create)
  have h3: "c_str (sender_id (register_frame ''w1'')) = ''w1''"
    by (simp add: register_frame_def sender_create NUL_def MAX_NAME_LEN_def)
  have h4: "list_all (\<lambda>(env, now, a). \<not> resource_heartbeat env ''w1'' a) unheard_run"
    by (simp add: unheard_run_def)
  have l: "length (nodes init_coord) < MAX_NODES" by (simp add: init_coord_def MAX_NODES_def)
  have st: "worker_state ?s' ''w1'' = Some NODE_CONNECTED"
    by (simp add: worker_state_def model_defs scenario_defs frame_simps sample_defs
        placement_defs)
  have id: "n_id (nodes ?s' ! 0) = ''w1''"
    by (simp add: model_defs scenario_defs frame_simps sample_defs placement_defs)
  from unheard_worker_never_placed [OF h1 h2 h3 h4 refl, where t = 95 and cfg = "sample_config ''web''" and penv = sample_env] id
  have "find_best_node sample_env 95 (nodes ?s') (sample_config ''web'') \<noteq> Some 0" by auto
  with h1 h2 h3 l st id show ?thesis by simp
qed

end
